theory Spec2Isabelle
  imports Complex_Main
begin

section \<open>Data model\<close>

text \<open>
  Errors thrown on the callback path. \<open>Error msg\<close> is a plain JavaScript \<^verbatim>\<open>Error\<close>
  with its message (\<^verbatim>\<open>throw new Error("OAuth cookie not found")\<close>); \<open>NotFoundError\<close> is
  what the handshake store answers for an unknown, consumed or expired id;
  \<open>TokenExchangeError\<close> stands for whatever the OAuth client throws when the exchange
  fails; \<open>InvalidCookie part\<close> for what the standard library's \<^verbatim>\<open>setCookie\<close> throws when it
  refuses that part of a cookie.
\<close>

datatype cookie_part = NamePart | ValuePart | MaxAgePart | DomainPart | PathPart

datatype error =
    Error string
  | NotFoundError
  | TokenExchangeError string
  | InvalidCookie cookie_part

subsection \<open>JavaScript numbers\<close>

text \<open>
  A JavaScript \<^verbatim>\<open>number\<close> is an IEEE 754 double: a finite value (a rational number that the
  format holds; the two zeros are not told apart, both are falsy and print as \<open>0\<close>),
  \<^verbatim>\<open>NaN\<close>, or an infinity. A product is the exact product rounded to the nearest double,
  ties to even: \<open>fl\<close> rounds to 53 significant bits, not below the exponent \<open>-1074\<close> of
  the subnormal numbers, and gives an infinity from \<open>2 ^ 1024\<close> on.
\<close>

datatype number = Num rat | NaN | PosInfinity | NegInfinity

fun bits :: "nat \<Rightarrow> nat" where
  "bits n = (if n = 0 then 0 else Suc (bits (n div 2)))"

declare bits.simps [simp del]

definition pow2 :: "int \<Rightarrow> rat" where
  "pow2 e = (if 0 \<le> e then 2 ^ nat e else 1 / 2 ^ nat (- e))"

text \<open>The exponent of the leading bit of a positive rational: \<open>pow2 (ilog2 a) \<le> a < pow2 (ilog2 a + 1)\<close>.\<close>

definition ilog2 :: "rat \<Rightarrow> int" where
  "ilog2 a =
     (case quotient_of a of (p, r) \<Rightarrow>
        (let d = int (bits (nat p)) - int (bits (nat r))
         in if pow2 d \<le> a then d else d - 1))"

text \<open>The quotient \<open>p / r\<close> of a non-negative \<open>p\<close> by a positive \<open>r\<close>, rounded to the nearest integer, ties to even.\<close>

definition round_half_even :: "int \<Rightarrow> int \<Rightarrow> int" where
  "round_half_even p r =
     (let f = p div r; m = p mod r
      in if 2 * m < r then f
         else if r < 2 * m then f + 1
         else if even f then f else f + 1)"

definition fl :: "rat \<Rightarrow> number" where
  "fl q =
     (if q = 0 then Num 0
      else
        (let a = \<bar>q\<bar>;
             e = max (ilog2 a - 52) (- 1074);
             n = (case quotient_of a of (p, r) \<Rightarrow>
                    if 0 \<le> e then round_half_even p (r * 2 ^ nat e)
                    else round_half_even (p * 2 ^ nat (- e)) r);
             r = of_int n * pow2 e
         in if pow2 1024 \<le> r then (if 0 < q then PosInfinity else NegInfinity)
            else Num (if 0 < q then r else - r)))"

definition sign_of :: "number \<Rightarrow> int" where
  "sign_of x =
     (case x of
        Num q \<Rightarrow> (if q = 0 then 0 else if 0 < q then 1 else - 1)
      | NaN \<Rightarrow> 0
      | PosInfinity \<Rightarrow> 1
      | NegInfinity \<Rightarrow> - 1)"

text \<open>\<^verbatim>\<open>x * y\<close>: an infinity times zero is \<^verbatim>\<open>NaN\<close>, as is every product with \<^verbatim>\<open>NaN\<close>.\<close>

definition times_number :: "number \<Rightarrow> number \<Rightarrow> number" where
  "times_number x y =
     (case (x, y) of
        (Num a, Num b) \<Rightarrow> fl (a * b)
      | _ \<Rightarrow>
          if x = NaN \<or> y = NaN \<or> sign_of x * sign_of y = 0 then NaN
          else if 0 < sign_of x * sign_of y then PosInfinity
          else NegInfinity)"

text \<open>A number is truthy unless it is zero or \<^verbatim>\<open>NaN\<close>.\<close>

definition truthy_number :: "number \<Rightarrow> bool" where
  "truthy_number x = (case x of Num q \<Rightarrow> q \<noteq> 0 | NaN \<Rightarrow> False | _ \<Rightarrow> True)"

text \<open>\<^verbatim>\<open>Number.isInteger(x)\<close>, with the integer it is.\<close>

definition integer_of :: "number \<Rightarrow> int option" where
  "integer_of x =
     (case x of
        Num q \<Rightarrow> (if of_int \<lfloor>q\<rfloor> = q then Some \<lfloor>q\<rfloor> else None)
      | _ \<Rightarrow> None)"

subsection \<open>Objects and records\<close>

text \<open>
  A property of a JavaScript object literal is absent, present with the value
  \<^verbatim>\<open>undefined\<close>, or present with a value. The difference between the first two matters
  to object spread, which copies every own property, \<^verbatim>\<open>undefined\<close> ones included.
\<close>

datatype 'a property = Absent | Undefined | Val 'a

text \<open>
  Modelled from the spec: the \<^verbatim>\<open>Cookie\<close> type comes from \<^verbatim>\<open>deps.ts\<close>, which is not among
  the sources; its attributes are those of section 3 of the specification (name, value,
  \<open>HttpOnly\<close>, \<open>SameSite\<close>, \<open>Path\<close>, \<open>Secure\<close>, \<open>Domain\<close>, \<open>MaxAge\<close>). One record
  serves for \<^verbatim>\<open>Cookie\<close>, \<^verbatim>\<open>Partial<Cookie>\<close> and the \<^verbatim>\<open>COOKIE_BASE\<close> literal: all three
  are plain objects, told apart only by which properties are present. \<open>maxAge\<close> is a
  \<^verbatim>\<open>number\<close> of seconds. The \<open>expires\<close> and \<open>unparsed\<close> properties of the library's type
  are left out: they add text to the header and cannot make \<^verbatim>\<open>setCookie\<close> throw.
\<close>

record cookie =
  name :: "string property"
  value_c :: "string property"
  maxAge :: "number property"
  domain :: "string property"
  path :: "string property"
  secure :: "bool property"
  httpOnly :: "bool property"
  sameSite :: "string property"

text \<open>
  \<^verbatim>\<open>interface HandleCallbackOptions { cookieOptions?: Partial<Cookie> }\<close>. The options of
  \<^verbatim>\<open>createHelpers\<close> and of \<^verbatim>\<open>signOut\<close> have the same shape.
\<close>

record cookie_opts =
  cookieOptions :: "cookie option"

type_synonym HandleCallbackOptions = cookie_opts
type_synonym CreateHelpersOptions = cookie_opts
type_synonym SignOutOptions = cookie_opts

record GetSessionIdOptions =
  cookieName :: "string option"

text \<open>
  The request as the callback reads it: its URL, and its headers as the table that
  \<^verbatim>\<open>getCookies\<close> reads off them.
\<close>

record headers =
  cookies :: "string \<rightharpoonup> string"

record request =
  url :: string
  headers :: headers

text \<open>
  A \<^verbatim>\<open>Set-Cookie\<close> header as it leaves: the name and value, and the attributes that are
  written.
\<close>

record set_cookie =
  wire_name :: string
  wire_value :: string
  wire_secure :: bool
  wire_httpOnly :: bool
  wire_maxAge :: "int option"
  wire_domain :: "string option"
  wire_sameSite :: "string option"
  wire_path :: "string option"

record response =
  status :: nat
  location :: string
  set_cookies :: "set_cookie list"

record 'tok callback_result =
  response :: response
  sessionId :: string
  tokens :: 'tok

text \<open>The handshake record of section 3; its id is the key it is stored under.\<close>

record oauth_session =
  state :: string
  codeVerifier :: string
  successUrl :: string

record oauth_entry =
  session :: oauth_session
  expires_at :: nat

record site_entry =
  created_at :: nat
  expire_in :: "number option"

text \<open>
  Everything outside the process that the callback touches: the key-value store with its
  clock (milliseconds), its two key spaces, and the list of requests sent to the
  provider's token endpoint.
\<close>

record world =
  clock :: nat
  oauth_sessions :: "string \<rightharpoonup> oauth_entry"
  site_sessions :: "string \<rightharpoonup> site_entry"
  token_requests :: "(string \<times> oauth_session) list"

section \<open>Collaborators that are not among the sources\<close>

text \<open>
  Modelled from the spec: \<^verbatim>\<open>SECOND\<close> of \<^verbatim>\<open>deps.ts\<close>, the factor that converts the cookie's
  \<open>maxAge\<close> in seconds to the store's unit, milliseconds.
\<close>

definition SECOND :: number where
  "SECOND = Num 1000"

text \<open>
  Modelled from the spec: the two logical purposes of \<^verbatim>\<open>_http.ts\<close>, \<open>"oauth-session"\<close> and
  \<open>"site-session"\<close>.
\<close>

definition OAUTH_COOKIE_NAME :: string where
  "OAUTH_COOKIE_NAME = ''oauth-session''"

definition SITE_COOKIE_NAME :: string where
  "SITE_COOKIE_NAME = ''site-session''"

text \<open>
  Modelled from the spec: \<^verbatim>\<open>isHttps\<close> of \<^verbatim>\<open>_http.ts\<close>, "the request URL scheme is https".
\<close>

definition isHttps :: "string \<Rightarrow> bool" where
  "isHttps u = (take 6 u = ''https:'')"

text \<open>
  Modelled from the spec: \<^verbatim>\<open>getCookieName\<close> of \<^verbatim>\<open>_http.ts\<close>, the purpose "plus an
  HTTPS-dependent prefix (cookies requiring Secure use a locked prefix per common browser
  cookie-prefix conventions)". The specification does not spell the prefix; \<open>__Host-\<close> is
  taken. The statements about \<open>Secure\<close> below use only that it is one of the two locked
  prefixes, \<open>__Host-\<close> and \<open>__Secure-\<close>, for which \<^verbatim>\<open>setCookie\<close> writes \<open>Secure\<close>.
\<close>

definition getCookieName :: "string \<Rightarrow> bool \<Rightarrow> string" where
  "getCookieName name' isHttps' = (if isHttps' then ''__Host-'' @ name' else name')"

text \<open>
  Modelled from the spec: \<^verbatim>\<open>redirect\<close> of \<^verbatim>\<open>_http.ts\<close>, an HTTP redirect (302) to the
  given location, with no cookie yet.
\<close>

definition redirect :: "string \<Rightarrow> response" where
  "redirect loc = \<lparr>status = 302, location = loc, set_cookies = []\<rparr>"

text \<open>
  Modelled from the spec: \<^verbatim>\<open>getCookies\<close> of \<^verbatim>\<open>deps.ts\<close>. Reading gives the cookie table
  of the headers.
\<close>

definition getCookies :: "headers \<Rightarrow> string \<rightharpoonup> string" where
  "getCookies h = cookies h"

text \<open>
  \<^verbatim>\<open>setCookie\<close> of \<^verbatim>\<open>deps.ts\<close> is the standard library's (\<^verbatim>\<open>std/http/cookie.ts\<close>), which is
  not among the sources and not described by the specification; it is modelled as the
  library behaves. It turns the cookie into a header and appends it:
  \<^item> a cookie whose name is absent, \<^verbatim>\<open>undefined\<close> or empty gives no header, and no error;
  \<^item> the name must consist of printable ASCII characters other than space and the
    separators, the value of ASCII characters other than controls, space, double quote,
    comma, semicolon and backslash; otherwise \<^verbatim>\<open>setCookie\<close> throws;
  \<^item> a name that starts with \<open>__Secure\<close> sets \<open>secure\<close> on the cookie object; a name
    that starts with \<open>__Host\<close> sets \<open>secure\<close> and \<open>path = "/"\<close> and deletes \<open>domain\<close>;
  \<^item> a \<open>maxAge\<close> that is an integer must not be negative, or \<^verbatim>\<open>setCookie\<close> throws; a
    \<open>maxAge\<close> that is not an integer is not written;
  \<^item> a domain must not start with a hyphen or end with a hyphen or a dot, a path must
    consist of printable ASCII characters other than the semicolon; otherwise
    \<^verbatim>\<open>setCookie\<close> throws;
  \<^item> \<open>Secure\<close>, \<open>HttpOnly\<close>, \<open>Domain\<close>, \<open>SameSite\<close> and \<open>Path\<close> are written when the
    property is truthy.
  Strings are byte strings here: a character beyond ASCII is refused in a value (the
  library lets the one code unit \<open>0x80\<close> through).
\<close>

definition name_char :: "char \<Rightarrow> bool" where
  "name_char c =
     (0x21 \<le> (of_char c :: nat) \<and> (of_char c :: nat) \<le> 0x7E \<and>
      c \<notin> set ''()@<>,;:[]?={}'' \<and> (of_char c :: nat) \<noteq> 0x22 \<and> (of_char c :: nat) \<noteq> 0x5C)"

definition value_char :: "char \<Rightarrow> bool" where
  "value_char c =
     (0x21 \<le> (of_char c :: nat) \<and> (of_char c :: nat) < 0x7F \<and>
      (of_char c :: nat) \<notin> {0x22, 0x2C, 0x3B, 0x5C})"

definition path_char :: "char \<Rightarrow> bool" where
  "path_char c =
     (0x20 \<le> (of_char c :: nat) \<and> (of_char c :: nat) \<le> 0x7E \<and> (of_char c :: nat) \<noteq> 0x3B)"

definition validName :: "string \<Rightarrow> bool" where
  "validName n = list_all name_char n"

definition validValue :: "string property \<Rightarrow> bool" where
  "validValue v = (case v of Val s \<Rightarrow> list_all value_char s | _ \<Rightarrow> True)"

definition validDomain :: "string \<Rightarrow> bool" where
  "validDomain d = (d = [] \<or> (hd d \<noteq> CHR ''-'' \<and> last d \<noteq> CHR ''.'' \<and> last d \<noteq> CHR ''-''))"

definition validPath :: "string \<Rightarrow> bool" where
  "validPath p = list_all path_char p"

text \<open>The writes to the cookie object for the \<open>__Secure\<close> and \<open>__Host\<close> names.\<close>

definition prefix_fallback :: "string \<Rightarrow> cookie \<Rightarrow> cookie" where
  "prefix_fallback n c =
     (let c1 = (if take 8 n = ''__Secure'' then c\<lparr>secure := Val True\<rparr> else c)
      in if take 6 n = ''__Host''
         then c1\<lparr>path := Val ''/'', secure := Val True, domain := Absent\<rparr>
         else c1)"

definition truthy_string :: "string property \<Rightarrow> string option" where
  "truthy_string p = (case p of Val s \<Rightarrow> (if s = [] then None else Some s) | _ \<Rightarrow> None)"

definition text_of :: "string property \<Rightarrow> string" where
  "text_of p = (case p of Val s \<Rightarrow> s | _ \<Rightarrow> ''undefined'')"

text \<open>
  The library's \<^verbatim>\<open>toString(cookie)\<close>: the header, nothing for the empty string, or the
  error thrown; the checks in the library's order.
\<close>

definition toString :: "cookie \<Rightarrow> error + set_cookie option" where
  "toString cookie =
     (case truthy_string (name cookie) of
        None \<Rightarrow> Inr None
      | Some n \<Rightarrow>
          if \<not> validName n then Inl (InvalidCookie NamePart)
          else if \<not> validValue (value_c cookie) then Inl (InvalidCookie ValuePart)
          else
            (let c = prefix_fallback n cookie;
                 max_age = (case maxAge c of Val x \<Rightarrow> integer_of x | _ \<Rightarrow> None)
             in if (case max_age of Some m \<Rightarrow> m < 0 | None \<Rightarrow> False)
                then Inl (InvalidCookie MaxAgePart)
                else if (case truthy_string (domain c) of Some d \<Rightarrow> \<not> validDomain d | None \<Rightarrow> False)
                then Inl (InvalidCookie DomainPart)
                else if (case truthy_string (path c) of Some p \<Rightarrow> \<not> validPath p | None \<Rightarrow> False)
                then Inl (InvalidCookie PathPart)
                else Inr (Some
                  \<lparr>wire_name = n,
                   wire_value = text_of (value_c cookie),
                   wire_secure = (secure c = Val True),
                   wire_httpOnly = (httpOnly c = Val True),
                   wire_maxAge = max_age,
                   wire_domain = truthy_string (domain c),
                   wire_sameSite = truthy_string (sameSite c),
                   wire_path = truthy_string (path c)\<rparr>)))"

definition setCookie :: "response \<Rightarrow> cookie \<Rightarrow> error + response" where
  "setCookie r cookie =
     (case toString cookie of
        Inl e \<Rightarrow> Inl e
      | Inr None \<Rightarrow> Inr r
      | Inr (Some v) \<Rightarrow> Inr (r\<lparr>set_cookies := set_cookies r @ [v]\<rparr>))"

text \<open>
  Modelled from the spec: the OAuth Session Manager of \<^verbatim>\<open>_kv.ts\<close> (section 4.2).
  \<open>create\<close> writes the record under its id with the fixed time-to-live of ten minutes;
  \<open>consume\<close> is one atomic read-and-delete, and answers \<open>NotFoundError\<close> when the id is
  unknown, already consumed or expired. Expiry is the store's: a record whose time has
  come is treated as absent.
\<close>

definition OAUTH_SESSION_TTL :: nat where
  "OAUTH_SESSION_TTL = 10 * 60 * 1000"

definition setOAuthSession :: "string \<Rightarrow> oauth_session \<Rightarrow> world \<Rightarrow> world" where
  "setOAuthSession id' s w =
     w\<lparr>oauth_sessions := (oauth_sessions w)
          (id' \<mapsto> \<lparr>session = s, expires_at = clock w + OAUTH_SESSION_TTL\<rparr>)\<rparr>"

definition getAndDeleteOAuthSession :: "string \<Rightarrow> world \<Rightarrow> (error + oauth_session) \<times> world" where
  "getAndDeleteOAuthSession id' w =
     (case oauth_sessions w id' of
        None \<Rightarrow> (Inl NotFoundError, w)
      | Some e \<Rightarrow>
          if clock w < expires_at e
          then (Inr (session e), w\<lparr>oauth_sessions := (oauth_sessions w)(id' := None)\<rparr>)
          else (Inl NotFoundError, w))"

text \<open>
  Modelled from the spec: the Site Session Manager's \<open>create\<close> of \<^verbatim>\<open>_kv.ts\<close>
  (section 4.3), which "writes an empty marker record under \<open>site_session:{id}\<close> with the
  given TTL, or no expiry if absent". The entry keeps the time of creation and the
  time-to-live it was given.
\<close>

definition setSiteSession :: "string \<Rightarrow> number option \<Rightarrow> world \<Rightarrow> world" where
  "setSiteSession id' expireIn w =
     w\<lparr>site_sessions := (site_sessions w)
          (id' \<mapsto> \<lparr>created_at = clock w, expire_in = expireIn\<rparr>)\<rparr>"

text \<open>Time passing, for the store's expiry.\<close>

definition advance :: "nat \<Rightarrow> world \<Rightarrow> world" where
  "advance d w = w\<lparr>clock := clock w + d\<rparr>"

section \<open>The callback (\<^verbatim>\<open>handle_callback.ts\<close>)\<close>

text \<open>
  Object spread \<^verbatim>\<open>{...a, ...b}\<close>, property by property: a property present in \<open>b\<close> (also
  with the value \<^verbatim>\<open>undefined\<close>) replaces that of \<open>a\<close>.
\<close>

definition over :: "'a property \<Rightarrow> 'a property \<Rightarrow> 'a property" where
  "over a b = (case b of Absent \<Rightarrow> a | _ \<Rightarrow> b)"

definition spread :: "cookie \<Rightarrow> cookie \<Rightarrow> cookie" where
  "spread a b =
     \<lparr>name = over (name a) (name b),
      value_c = over (value_c a) (value_c b),
      maxAge = over (maxAge a) (maxAge b),
      domain = over (domain a) (domain b),
      path = over (path a) (path b),
      secure = over (secure a) (secure b),
      httpOnly = over (httpOnly a) (httpOnly b),
      sameSite = over (sameSite a) (sameSite b)\<rparr>"

text \<open>
  \<^verbatim>\<open>options?.cookieOptions\<close> is \<^verbatim>\<open>undefined\<close> when there are no options or the options have
  no \<open>cookieOptions\<close>; spreading \<^verbatim>\<open>undefined\<close> adds nothing.
\<close>

definition cookieOptions_of :: "cookie_opts option \<Rightarrow> cookie option" where
  "cookieOptions_of options = (case options of None \<Rightarrow> None | Some opts \<Rightarrow> cookieOptions opts)"

definition spread_opt :: "cookie \<Rightarrow> cookie option \<Rightarrow> cookie" where
  "spread_opt a b = (case b of None \<Rightarrow> a | Some b' \<Rightarrow> spread a b')"

text \<open>
  \<^verbatim>\<open>cookie.maxAge ? cookie.maxAge * SECOND : undefined\<close>: an absent or \<^verbatim>\<open>undefined\<close>
  \<open>maxAge\<close>, zero and \<^verbatim>\<open>NaN\<close> are falsy; the product is a product of doubles.
\<close>

definition expireIn_of :: "cookie \<Rightarrow> number option" where
  "expireIn_of c =
     (case maxAge c of
        Val m \<Rightarrow> if truthy_number m then Some (times_number m SECOND) else None
      | _ \<Rightarrow> None)"

text \<open>
  \<^verbatim>\<open>handleCallback(request, oauthConfig, options)\<close>. What the source takes from its
  surroundings is passed in: the \<^verbatim>\<open>COOKIE_BASE\<close> literal of \<^verbatim>\<open>_http.ts\<close>, the token
  exchange \<^verbatim>\<open>new OAuth2Client(oauthConfig).code.getToken\<close> of the OAuth client, and the
  value that \<^verbatim>\<open>crypto.randomUUID()\<close> draws. A thrown error is \<open>Inl\<close>, next to the world as
  it stands when the error is thrown. \<^verbatim>\<open>setCookie\<close> writes to the cookie object only its
  \<open>secure\<close>, \<open>path\<close> and \<open>domain\<close>, so the \<open>maxAge\<close> read at line 85 is the one of the
  object literal.
\<close>

definition handleCallback ::
  "cookie \<Rightarrow> ('cfg \<Rightarrow> string \<Rightarrow> oauth_session \<Rightarrow> error + 'tok) \<Rightarrow> string \<Rightarrow>
   request \<Rightarrow> 'cfg \<Rightarrow> HandleCallbackOptions option \<Rightarrow> world \<Rightarrow>
   (error + 'tok callback_result) \<times> world" where
  "handleCallback COOKIE_BASE getToken randomUUID request oauthConfig options w =
     (let oauthCookieName = getCookieName OAUTH_COOKIE_NAME (isHttps (url request)) in
      case getCookies (headers request) oauthCookieName of
        None \<Rightarrow> (Inl (Error ''OAuth cookie not found''), w)
      | Some oauthSessionId \<Rightarrow>
          (case getAndDeleteOAuthSession oauthSessionId w of
             (Inl e, w1) \<Rightarrow> (Inl e, w1)
           | (Inr oauthSession, w1) \<Rightarrow>
               (let w2 = w1\<lparr>token_requests :=
                              token_requests w1 @ [(url request, oauthSession)]\<rparr> in
                case getToken oauthConfig (url request) oauthSession of
                  Inl e \<Rightarrow> (Inl e, w2)
                | Inr tokens' \<Rightarrow>
                    (let sessionId' = randomUUID;
                         response' = redirect (successUrl oauthSession);
                         cookie = spread_opt
                           (COOKIE_BASE
                              \<lparr>name := Val (getCookieName SITE_COOKIE_NAME (isHttps (url request))),
                               value_c := Val sessionId',
                               secure := Val (isHttps (url request))\<rparr>)
                           (cookieOptions_of options)
                     in case setCookie response' cookie of
                          Inl e \<Rightarrow> (Inl e, w2)
                        | Inr response'' \<Rightarrow>
                            (let w3 = setSiteSession sessionId' (expireIn_of cookie) w2
                             in (Inr \<lparr>response = response'', sessionId = sessionId',
                                      tokens = tokens'\<rparr>,
                                 w3))))))"

section \<open>The callback at its suspension points\<close>

text \<open>
  \<^verbatim>\<open>handleCallback\<close> is an \<^verbatim>\<open>async\<close> function: it runs without interruption up to each
  \<^verbatim>\<open>await\<close>, and other requests are served in between. The three awaited operations
  are the read-and-delete of the handshake record (atomic in the store), the token
  exchange and the creation of the site session (which is not reached when \<^verbatim>\<open>setCookie\<close>
  throws). A callback in flight is in one of
  four phases; \<open>callback_step\<close> takes it through the next awaited operation.
\<close>

datatype 'tok phase =
    Start
  | Consumed oauth_session
  | Exchanged oauth_session 'tok
  | Finished "error + 'tok callback_result"

definition callback_step ::
  "cookie \<Rightarrow> ('cfg \<Rightarrow> string \<Rightarrow> oauth_session \<Rightarrow> error + 'tok) \<Rightarrow> string \<Rightarrow>
   request \<Rightarrow> 'cfg \<Rightarrow> HandleCallbackOptions option \<Rightarrow> 'tok phase \<times> world \<Rightarrow>
   'tok phase \<times> world" where
  "callback_step COOKIE_BASE getToken randomUUID request oauthConfig options pw =
     (case pw of
        (Start, w) \<Rightarrow>
          (let oauthCookieName = getCookieName OAUTH_COOKIE_NAME (isHttps (url request)) in
           case getCookies (headers request) oauthCookieName of
             None \<Rightarrow> (Finished (Inl (Error ''OAuth cookie not found'')), w)
           | Some oauthSessionId \<Rightarrow>
               (case getAndDeleteOAuthSession oauthSessionId w of
                  (Inl e, w1) \<Rightarrow> (Finished (Inl e), w1)
                | (Inr oauthSession, w1) \<Rightarrow> (Consumed oauthSession, w1)))
      | (Consumed oauthSession, w1) \<Rightarrow>
          (let w2 = w1\<lparr>token_requests :=
                         token_requests w1 @ [(url request, oauthSession)]\<rparr> in
           case getToken oauthConfig (url request) oauthSession of
             Inl e \<Rightarrow> (Finished (Inl e), w2)
           | Inr tokens' \<Rightarrow> (Exchanged oauthSession tokens', w2))
      | (Exchanged oauthSession tokens', w2) \<Rightarrow>
          (let sessionId' = randomUUID;
               response' = redirect (successUrl oauthSession);
               cookie = spread_opt
                 (COOKIE_BASE
                    \<lparr>name := Val (getCookieName SITE_COOKIE_NAME (isHttps (url request))),
                     value_c := Val sessionId',
                     secure := Val (isHttps (url request))\<rparr>)
                 (cookieOptions_of options)
           in case setCookie response' cookie of
                Inl e \<Rightarrow> (Finished (Inl e), w2)
              | Inr response'' \<Rightarrow>
                  (let w3 = setSiteSession sessionId' (expireIn_of cookie) w2
                   in (Finished (Inr \<lparr>response = response'', sessionId = sessionId',
                                      tokens = tokens'\<rparr>),
                       w3)))
      | (Finished r, w) \<Rightarrow> (Finished r, w))"

text \<open>
  Two callbacks in flight on one store. The schedule says whose awaited operation
  completes next: \<open>True\<close> for the first callback, \<open>False\<close> for the second.
\<close>

record callback_call =
  call_uuid :: string
  call_request :: request
  call_options :: "HandleCallbackOptions option"

fun interleave ::
  "cookie \<Rightarrow> ('cfg \<Rightarrow> string \<Rightarrow> oauth_session \<Rightarrow> error + 'tok) \<Rightarrow> 'cfg \<Rightarrow>
   callback_call \<Rightarrow> callback_call \<Rightarrow> bool list \<Rightarrow>
   'tok phase \<times> 'tok phase \<times> world \<Rightarrow> 'tok phase \<times> 'tok phase \<times> world" where
  "interleave COOKIE_BASE getToken oauthConfig a b [] pqw = pqw"
| "interleave COOKIE_BASE getToken oauthConfig a b (first # schedule) (p, q, w) =
     (if first
      then (case callback_step COOKIE_BASE getToken (call_uuid a) (call_request a)
                   oauthConfig (call_options a) (p, w) of
              (p', w') \<Rightarrow> interleave COOKIE_BASE getToken oauthConfig a b schedule (p', q, w'))
      else (case callback_step COOKIE_BASE getToken (call_uuid b) (call_request b)
                   oauthConfig (call_options b) (q, w) of
              (q', w') \<Rightarrow> interleave COOKIE_BASE getToken oauthConfig a b schedule (p, q', w')))"

section \<open>Bound helpers (\<^verbatim>\<open>create_helpers.ts\<close>)\<close>

record ('si, 'hc, 'so, 'gs) helpers =
  h_signIn :: 'si
  h_handleCallback :: 'hc
  h_signOut :: 'so
  h_getSessionId :: 'gs

text \<open>
  \<^verbatim>\<open>options?.cookieOptions?.name\<close>: the name when there are options, they have
  \<open>cookieOptions\<close>, and these have a name; \<^verbatim>\<open>undefined\<close> otherwise.
\<close>

definition cookieOptions_name_of :: "CreateHelpersOptions option \<Rightarrow> string option" where
  "cookieOptions_name_of options =
     (case cookieOptions_of options of
        None \<Rightarrow> None
      | Some c \<Rightarrow> (case name c of Val n \<Rightarrow> Some n | _ \<Rightarrow> None))"

text \<open>
  \<^verbatim>\<open>createHelpers(oauthConfig, options)\<close>. The standalone \<^verbatim>\<open>signIn\<close>, \<^verbatim>\<open>signOut\<close> and
  \<^verbatim>\<open>getSessionId\<close> live in \<^verbatim>\<open>sign_in.ts\<close>, \<^verbatim>\<open>sign_out.ts\<close> and \<^verbatim>\<open>get_session_id.ts\<close>,
  which are not among the sources: they are passed in, with what \<open>handleCallback\<close> takes
  from its surroundings. An optional argument is an \<open>option\<close>.
\<close>

definition createHelpers ::
  "(request \<Rightarrow> 'cfg \<Rightarrow> 'sio option \<Rightarrow> 'a) \<Rightarrow>
   (request \<Rightarrow> SignOutOptions option \<Rightarrow> 'b) \<Rightarrow>
   (request \<Rightarrow> GetSessionIdOptions option \<Rightarrow> 'c) \<Rightarrow>
   cookie \<Rightarrow> ('cfg \<Rightarrow> string \<Rightarrow> oauth_session \<Rightarrow> error + 'tok) \<Rightarrow>
   'cfg \<Rightarrow> CreateHelpersOptions option \<Rightarrow>
   (request \<Rightarrow> 'sio option \<Rightarrow> 'a,
    string \<Rightarrow> request \<Rightarrow> world \<Rightarrow> (error + 'tok callback_result) \<times> world,
    request \<Rightarrow> 'b,
    request \<Rightarrow> 'c) helpers" where
  "createHelpers signIn signOut getSessionId COOKIE_BASE getToken oauthConfig options =
     \<lparr>h_signIn = (\<lambda>request options'. signIn request oauthConfig options'),
      h_handleCallback = (\<lambda>randomUUID request.
         handleCallback COOKIE_BASE getToken randomUUID request oauthConfig
           (Some \<lparr>cookieOptions = cookieOptions_of options\<rparr>)),
      h_signOut = (\<lambda>request.
         signOut request (Some \<lparr>cookieOptions = cookieOptions_of options\<rparr>)),
      h_getSessionId = (\<lambda>request.
         getSessionId request (Some \<lparr>cookieName = cookieOptions_name_of options\<rparr>))\<rparr>"

section \<open>Observations\<close>

text \<open>
  What a caller can see of a callback: the cookies on the response it got (none when the
  callback threw), the property a caller put into \<open>cookieOptions\<close>, and the time-to-live
  a site session was created with.
\<close>

definition emitted_cookies :: "(error + 'tok callback_result) \<Rightarrow> set_cookie list" where
  "emitted_cookies r = (case r of Inl e \<Rightarrow> [] | Inr res \<Rightarrow> set_cookies (response res))"

definition override_of :: "(cookie \<Rightarrow> 'a property) \<Rightarrow> HandleCallbackOptions option \<Rightarrow> 'a property" where
  "override_of f options = (case cookieOptions_of options of None \<Rightarrow> Absent | Some co \<Rightarrow> f co)"

definition created_ttl :: "world \<Rightarrow> string \<Rightarrow> number option option" where
  "created_ttl w id' = map_option expire_in (site_sessions w id')"

text \<open>Whether \<^verbatim>\<open>setCookie\<close> throws on a cookie.\<close>

definition cookie_refused :: "cookie \<Rightarrow> bool" where
  "cookie_refused c = (case toString c of Inl e \<Rightarrow> True | Inr v \<Rightarrow> False)"

text \<open>The object literal of lines 75 to 81 of \<^verbatim>\<open>handleCallback\<close>, on its own.\<close>

definition callback_cookie :: "cookie \<Rightarrow> request \<Rightarrow> string \<Rightarrow> HandleCallbackOptions option \<Rightarrow> cookie" where
  "callback_cookie COOKIE_BASE request sessionId' options =
     spread_opt
       (COOKIE_BASE
          \<lparr>name := Val (getCookieName SITE_COOKIE_NAME (isHttps (url request))),
           value_c := Val sessionId',
           secure := Val (isHttps (url request))\<rparr>)
       (cookieOptions_of options)"

text \<open>
  What a callback in flight has answered, if it has: the error, or the new session id.
  \<open>picks\<close> counts the steps a schedule gives to one of the two callbacks.
\<close>

definition result_of :: "'tok phase \<Rightarrow> (error + string) option" where
  "result_of p =
     (case p of
        Finished r \<Rightarrow> Some (case r of Inl e \<Rightarrow> Inl e | Inr res \<Rightarrow> Inr (sessionId res))
      | _ \<Rightarrow> None)"

definition picks :: "bool \<Rightarrow> bool list \<Rightarrow> nat" where
  "picks b schedule = length (filter (\<lambda>x. x = b) schedule)"

section \<open>The specification's wording\<close>

text \<open>
  The configuration bound at construction time, in the words of the claim about
  \<^verbatim>\<open>createHelpers\<close>: the \<open>cookieOptions\<close> given at construction, if any, and their
  \<open>name\<close> field, if it holds a string.
\<close>

definition construction_cookieOptions :: "CreateHelpersOptions option \<Rightarrow> cookie option" where
  "construction_cookieOptions options = Option.bind options cookieOptions"

definition defined_name :: "cookie \<Rightarrow> string option" where
  "defined_name c = (case name c of Val n \<Rightarrow> Some n | _ \<Rightarrow> None)"

definition construction_cookieName :: "CreateHelpersOptions option \<Rightarrow> string option" where
  "construction_cookieName options = Option.bind (construction_cookieOptions options) defined_name"

section \<open>Two callbacks racing for one handshake record\<close>

text \<open>
  The bookkeeping of the race. \<open>rank\<close> counts the awaited operations a callback has
  behind it. Once the record is gone from the store, one callback holds it (it is past
  the read-and-delete with that record, and when it has finished, with the result it
  would have had alone), and the other has lost: it has not yet asked the store, or has
  been answered \<open>NotFoundError\<close>.
\<close>

fun rank :: "'tok phase \<Rightarrow> nat" where
  "rank Start = 0"
| "rank (Consumed s) = 1"
| "rank (Exchanged s t) = 2"
| "rank (Finished r) = 3"

definition holds_record ::
  "('cfg \<Rightarrow> string \<Rightarrow> oauth_session \<Rightarrow> error + 'tok) \<Rightarrow> 'cfg \<Rightarrow> callback_call \<Rightarrow>
   oauth_entry \<Rightarrow> (error + 'tok callback_result) \<Rightarrow> 'tok phase \<Rightarrow> bool" where
  "holds_record getToken oauthConfig call entry alone p =
     (case p of
        Start \<Rightarrow> False
      | Consumed s \<Rightarrow> s = session entry
      | Exchanged s t \<Rightarrow>
          s = session entry \<and> getToken oauthConfig (url (call_request call)) s = Inr t
      | Finished r \<Rightarrow> r = alone)"

definition lost_race :: "'tok phase \<Rightarrow> bool" where
  "lost_race p =
     (case p of
        Start \<Rightarrow> True
      | Consumed s \<Rightarrow> False
      | Exchanged s t \<Rightarrow> False
      | Finished r \<Rightarrow> r = Inl NotFoundError)"

definition race_inv ::
  "('cfg \<Rightarrow> string \<Rightarrow> oauth_session \<Rightarrow> error + 'tok) \<Rightarrow> 'cfg \<Rightarrow> callback_call \<Rightarrow> callback_call \<Rightarrow>
   string \<Rightarrow> oauth_entry \<Rightarrow> (error + 'tok callback_result) \<Rightarrow> (error + 'tok callback_result) \<Rightarrow>
   'tok phase \<times> 'tok phase \<times> world \<Rightarrow> bool" where
  "race_inv getToken oauthConfig a b oid entry alone_a alone_b pqw =
     (case pqw of (p, q, w) \<Rightarrow>
        (p = Start \<and> q = Start \<and> oauth_sessions w oid = Some entry \<and> clock w < expires_at entry) \<or>
        (oauth_sessions w oid = None \<and>
           ((holds_record getToken oauthConfig a entry alone_a p \<and> lost_race q) \<or>
            (holds_record getToken oauthConfig b entry alone_b q \<and> lost_race p))))"

section \<open>Sample inputs\<close>

text \<open>
  Modelled from the spec: a \<^verbatim>\<open>COOKIE_BASE\<close> with the attribute defaults of section 3
  (\<open>HttpOnly\<close>, \<open>SameSite=Lax\<close>, \<open>Path=/\<close>), used as the sample value of the literal;
  a handshake record in an otherwise empty store; callback requests over http and https
  carrying the handshake cookie, and one over https carrying it under the http name; a
  token endpoint that accepts the verifier and one that rejects every code; overrides of
  single properties; two calls racing with the same handshake cookie.
\<close>

definition no_cookie :: cookie where
  "no_cookie = \<lparr>name = Absent, value_c = Absent, maxAge = Absent, domain = Absent,
      path = Absent, secure = Absent, httpOnly = Absent, sameSite = Absent\<rparr>"

definition spec_COOKIE_BASE :: cookie where
  "spec_COOKIE_BASE = no_cookie\<lparr>path := Val ''/'', httpOnly := Val True, sameSite := Val ''Lax''\<rparr>"

definition demo_session :: oauth_session where
  "demo_session = \<lparr>state = ''xyz'', codeVerifier = ''verifier'', successUrl = ''/dashboard''\<rparr>"

definition empty_world :: world where
  "empty_world = \<lparr>clock = 0, oauth_sessions = Map.empty, site_sessions = Map.empty, token_requests = []\<rparr>"

definition demo_world :: world where
  "demo_world = setOAuthSession ''h1'' demo_session empty_world"

definition http_request :: request where
  "http_request = \<lparr>url = ''http://localhost/callback?code=abc&state=xyz'',
      headers = \<lparr>cookies = [''oauth-session'' \<mapsto> ''h1'']\<rparr>\<rparr>"

definition https_request :: request where
  "https_request = \<lparr>url = ''https://news.site/callback?code=abc&state=xyz'',
      headers = \<lparr>cookies = [''__Host-oauth-session'' \<mapsto> ''h1'']\<rparr>\<rparr>"

definition misnamed_request :: request where
  "misnamed_request = \<lparr>url = ''https://news.site/callback?code=abc&state=xyz'',
      headers = \<lparr>cookies = [''oauth-session'' \<mapsto> ''h1'']\<rparr>\<rparr>"

definition demo_getToken :: "unit \<Rightarrow> string \<Rightarrow> oauth_session \<Rightarrow> error + string" where
  "demo_getToken cfg u s =
     (if codeVerifier s = ''verifier'' then Inr ''access-token''
      else Inl (TokenExchangeError ''invalid_grant''))"

definition rejecting_getToken :: "unit \<Rightarrow> string \<Rightarrow> oauth_session \<Rightarrow> error + string" where
  "rejecting_getToken cfg u s = Inl (TokenExchangeError ''invalid_grant'')"

definition secure_override :: HandleCallbackOptions where
  "secure_override = \<lparr>cookieOptions = Some (no_cookie\<lparr>secure := Val True\<rparr>)\<rparr>"

definition maxAge_override :: "number \<Rightarrow> HandleCallbackOptions" where
  "maxAge_override m = \<lparr>cookieOptions = Some (no_cookie\<lparr>maxAge := Val m\<rparr>)\<rparr>"

definition first_call :: callback_call where
  "first_call = \<lparr>call_uuid = ''s1'', call_request = http_request, call_options = None\<rparr>"

definition second_call :: callback_call where
  "second_call = \<lparr>call_uuid = ''s2'', call_request = http_request, call_options = None\<rparr>"

definition identity_override :: HandleCallbackOptions where
  "identity_override =
     \<lparr>cookieOptions = Some (no_cookie\<lparr>name := Val ''__Secure-triple-choc'', value_c := Val ''fixed''\<rparr>)\<rparr>"

definition insecure_override :: HandleCallbackOptions where
  "insecure_override = \<lparr>cookieOptions = Some (no_cookie\<lparr>secure := Val False\<rparr>)\<rparr>"

definition unnamed_override :: HandleCallbackOptions where
  "unnamed_override = \<lparr>cookieOptions = Some (no_cookie\<lparr>name := Val ''''\<rparr>)\<rparr>"

definition spaced_value_override :: HandleCallbackOptions where
  "spaced_value_override = \<lparr>cookieOptions = Some (no_cookie\<lparr>value_c := Val ''a b''\<rparr>)\<rparr>"

definition domain_path_override :: HandleCallbackOptions where
  "domain_path_override =
     \<lparr>cookieOptions = Some (no_cookie\<lparr>domain := Val ''news.site'', path := Val ''/app''\<rparr>)\<rparr>"

definition undefined_maxAge :: HandleCallbackOptions where
  "undefined_maxAge = \<lparr>cookieOptions = Some (no_cookie\<lparr>maxAge := Undefined\<rparr>)\<rparr>"

lemmas cookie_defs = toString_def truthy_string_def text_of_def validName_def
  validValue_def validDomain_def validPath_def name_char_def value_char_def path_char_def
  prefix_fallback_def integer_of_def cookie_refused_def

lemmas number_defs = times_number_def fl_def ilog2_def bits.simps pow2_def round_half_even_def
  truthy_number_def sign_of_def

lemmas model_defs = handleCallback_def getCookieName_def OAUTH_COOKIE_NAME_def SITE_COOKIE_NAME_def
  isHttps_def getCookies_def getAndDeleteOAuthSession_def setOAuthSession_def OAUTH_SESSION_TTL_def
  redirect_def setCookie_def setSiteSession_def spread_opt_def spread_def over_def cookieOptions_of_def
  expireIn_of_def SECOND_def advance_def emitted_cookies_def override_of_def created_ttl_def

lemmas demo_defs = no_cookie_def spec_COOKIE_BASE_def demo_session_def empty_world_def demo_world_def
  http_request_def https_request_def misnamed_request_def demo_getToken_def rejecting_getToken_def
  secure_override_def maxAge_override_def identity_override_def insecure_override_def
  unnamed_override_def undefined_maxAge_def spaced_value_override_def domain_path_override_def

section \<open>Numbers\<close>

lemma bits_le: "n < 2 ^ j \<Longrightarrow> bits n \<le> j"
proof (induction n arbitrary: j rule: bits.induct)
  case (1 n)
  show ?case
  proof (cases "n = 0")
    case True
    then show ?thesis by (simp add: bits.simps)
  next
    case False
    with "1.prems" obtain j' where j: "j = Suc j'" by (cases j) auto
    with "1.prems" have "n div 2 < 2 ^ j'" by auto
    from "1.IH"[OF False this] False j show ?thesis by (simp add: bits.simps[of n])
  qed
qed

lemma bits_1: "bits (Suc 0) = 1"
  by (simp add: bits.simps)

lemma round_half_even_1: "round_half_even p 1 = p"
  by (simp add: round_half_even_def)

lemma pow2_neg: "e \<le> 0 \<Longrightarrow> of_int (p * 2 ^ nat (- e)) * pow2 e = of_int p"
  by (cases "e = 0") (simp_all add: pow2_def)

text \<open>Rounding leaves a whole number below \<open>2 ^ 53\<close> as it is.\<close>

lemma fl_whole:
  assumes "0 < k" and "k < 2 ^ 53"
  shows "fl (of_int k) = Num (of_int k)"
proof -
  have "nat k < 2 ^ 53" using assms by (simp add: nat_less_iff)
  then have b: "bits (nat k) \<le> 53" by (rule bits_le)
  have l: "ilog2 (of_int k) \<le> 52"
    using b by (simp add: ilog2_def Let_def bits_1)
  define e where "e = max (ilog2 (rat_of_int k) - 52) (- 1074)"
  with l have e0: "e \<le> 0" by simp
  have n: "(case quotient_of (rat_of_int k) of (p, r) \<Rightarrow>
                    if 0 \<le> e then round_half_even p (r * 2 ^ nat e)
                    else round_half_even (p * 2 ^ nat (- e)) r) = k * 2 ^ nat (- e)"
    using e0 by (cases "e = 0") (simp_all add: round_half_even_1)
  have r: "rat_of_int (k * 2 ^ nat (- e)) * pow2 e = of_int k"
    using e0 by (rule pow2_neg)
  have small: "\<not> pow2 1024 \<le> rat_of_int k"
  proof -
    have "rat_of_int k < of_int (2 ^ 53)" using assms(2) by (simp only: of_int_less_iff)
    also have "\<dots> < pow2 1024" by (simp add: pow2_def)
    finally show ?thesis by simp
  qed
  have pos: "(0::rat) < of_int k" using assms(1) by simp
  have abs1: "\<bar>rat_of_int k\<bar> = of_int k" using assms(1) by simp
  show "fl (of_int k) = Num (of_int k)"
    unfolding fl_def abs1 Let_def e_def[symmetric] n r using small pos by simp
qed

lemma times_SECOND_whole:
  assumes "0 < m" and "m * 1000 < 2 ^ 53"
  shows "times_number (Num (of_int m)) SECOND = Num (of_int (m * 1000))"
proof -
  have "0 < m * 1000" using assms(1) by simp
  from fl_whole[OF this assms(2)] show ?thesis
    by (simp add: times_number_def SECOND_def)
qed

text \<open>Beyond \<open>2 ^ 53\<close> the product is rounded: \<open>(2 ^ 53 - 1) * 1000\<close> is not a double.\<close>

lemma times_SECOND_rounds:
  "times_number (Num 9007199254740991) SECOND = Num 9007199254740990976"
  by (simp add: number_defs SECOND_def Let_def)

lemma times_SECOND_fraction:
  "times_number (Num (3 / 2)) SECOND = Num 1500"
  by (simp add: number_defs SECOND_def Let_def)

section \<open>What \<^verbatim>\<open>setCookie\<close> writes\<close>

lemma toString_None: "toString c = Inr None \<longleftrightarrow> truthy_string (name c) = None"
  by (simp add: toString_def Let_def split: option.splits)

lemma toString_Some:
  assumes "toString c = Inr (Some v)"
  shows "\<exists>n. truthy_string (name c) = Some n \<and> wire_name v = n \<and>
           wire_value v = text_of (value_c c) \<and>
           wire_secure v = (secure c = Val True \<or> take 8 n = ''__Secure'' \<or> take 6 n = ''__Host'') \<and>
           wire_maxAge v = (case maxAge c of Val x \<Rightarrow> integer_of x | _ \<Rightarrow> None)"
proof -
  from assms obtain n where n: "truthy_string (name c) = Some n"
    by (cases "truthy_string (name c)") (simp_all add: toString_def)
  have m: "maxAge (prefix_fallback n c) = maxAge c"
    by (simp add: prefix_fallback_def Let_def)
  have s: "(secure (prefix_fallback n c) = Val True)
             = (secure c = Val True \<or> take 8 n = ''__Secure'' \<or> take 6 n = ''__Host'')"
    by (simp add: prefix_fallback_def Let_def)
  from assms n have "v = \<lparr>wire_name = n,
                   wire_value = text_of (value_c c),
                   wire_secure = (secure (prefix_fallback n c) = Val True),
                   wire_httpOnly = (httpOnly (prefix_fallback n c) = Val True),
                   wire_maxAge = (case maxAge (prefix_fallback n c) of Val x \<Rightarrow> integer_of x | _ \<Rightarrow> None),
                   wire_domain = truthy_string (domain (prefix_fallback n c)),
                   wire_sameSite = truthy_string (sameSite (prefix_fallback n c)),
                   wire_path = truthy_string (path (prefix_fallback n c))\<rparr>"
    by (simp add: toString_def Let_def split: if_splits)
  with n m s show ?thesis by simp
qed

lemma setCookie_redirect:
  assumes "setCookie (redirect loc) c = Inr r"
  shows "status r = 302" and "location r = loc"
    and "set_cookies r = (case toString c of Inr (Some v) \<Rightarrow> [v] | _ \<Rightarrow> [])"
  using assms by (auto simp: setCookie_def redirect_def split: sum.splits option.splits)

lemma setCookie_accepts:
  "\<not> cookie_refused c \<Longrightarrow> \<exists>r. setCookie resp c = Inr r"
  by (auto simp: cookie_refused_def setCookie_def split: sum.splits option.splits)

lemma setCookie_refuses:
  "setCookie resp c = Inl e \<longleftrightarrow> toString c = Inl e"
  by (auto simp: setCookie_def split: sum.splits option.splits)

section \<open>The paths through the callback\<close>

lemma handleCallback_missing_cookie:
  assumes "getCookies (headers request) (getCookieName OAUTH_COOKIE_NAME (isHttps (url request))) = None"
  shows "handleCallback base getToken uuid request cfg options w = (Inl (Error ''OAuth cookie not found''), w)"
  using assms by (simp add: handleCallback_def)

lemma handleCallback_consume_fails:
  assumes "getCookies (headers request) (getCookieName OAUTH_COOKIE_NAME (isHttps (url request))) = Some oid"
    and "getAndDeleteOAuthSession oid w = (Inl e, w1)"
  shows "handleCallback base getToken uuid request cfg options w = (Inl e, w1)"
  using assms by (simp add: handleCallback_def)

lemma handleCallback_exchange_fails:
  assumes "getCookies (headers request) (getCookieName OAUTH_COOKIE_NAME (isHttps (url request))) = Some oid"
    and "getAndDeleteOAuthSession oid w = (Inr s, w1)"
    and "getToken cfg (url request) s = Inl e"
  shows "handleCallback base getToken uuid request cfg options w =
           (Inl e, w1\<lparr>token_requests := token_requests w1 @ [(url request, s)]\<rparr>)"
  using assms by (simp add: handleCallback_def Let_def)

lemma handleCallback_cookie_refused:
  assumes "getCookies (headers request) (getCookieName OAUTH_COOKIE_NAME (isHttps (url request))) = Some oid"
    and "getAndDeleteOAuthSession oid w = (Inr s, w1)"
    and "getToken cfg (url request) s = Inr tok"
    and "setCookie (redirect (successUrl s)) (callback_cookie base request uuid options) = Inl e"
  shows "handleCallback base getToken uuid request cfg options w =
           (Inl e, w1\<lparr>token_requests := token_requests w1 @ [(url request, s)]\<rparr>)"
  using assms by (simp add: handleCallback_def Let_def callback_cookie_def)

lemma handleCallback_succeeds:
  assumes "getCookies (headers request) (getCookieName OAUTH_COOKIE_NAME (isHttps (url request))) = Some oid"
    and "getAndDeleteOAuthSession oid w = (Inr s, w1)"
    and "getToken cfg (url request) s = Inr tok"
    and "setCookie (redirect (successUrl s)) (callback_cookie base request uuid options) = Inr r"
  shows "handleCallback base getToken uuid request cfg options w =
           (Inr \<lparr>response = r, sessionId = uuid, tokens = tok\<rparr>,
            setSiteSession uuid (expireIn_of (callback_cookie base request uuid options))
              (w1\<lparr>token_requests := token_requests w1 @ [(url request, s)]\<rparr>))"
  using assms by (simp add: handleCallback_def Let_def callback_cookie_def)

lemma getAndDelete_live:
  assumes "oauth_sessions w oid = Some entry" and "clock w < expires_at entry"
  shows "getAndDeleteOAuthSession oid w =
           (Inr (session entry), w\<lparr>oauth_sessions := (oauth_sessions w)(oid := None)\<rparr>)"
  using assms by (simp add: getAndDeleteOAuthSession_def)

lemma getAndDelete_Inr:
  assumes "getAndDeleteOAuthSession oid w = (Inr s, w1)"
  shows "\<exists>entry. oauth_sessions w oid = Some entry \<and> clock w < expires_at entry \<and> s = session entry \<and>
           w1 = w\<lparr>oauth_sessions := (oauth_sessions w)(oid := None)\<rparr>"
  using assms by (auto simp: getAndDeleteOAuthSession_def split: option.splits if_splits)

lemma handleCallback_Inr:
  assumes "handleCallback base getToken uuid request cfg options w = (Inr res, w')"
  shows "\<exists>oid entry tok r.
     getCookies (headers request) (getCookieName OAUTH_COOKIE_NAME (isHttps (url request))) = Some oid \<and>
     oauth_sessions w oid = Some entry \<and> clock w < expires_at entry \<and>
     getToken cfg (url request) (session entry) = Inr tok \<and>
     setCookie (redirect (successUrl (session entry))) (callback_cookie base request uuid options) = Inr r \<and>
     res = \<lparr>response = r, sessionId = uuid, tokens = tok\<rparr> \<and>
     w' = setSiteSession uuid (expireIn_of (callback_cookie base request uuid options))
            (w\<lparr>oauth_sessions := (oauth_sessions w)(oid := None),
               token_requests := token_requests w @ [(url request, session entry)]\<rparr>)"
proof (cases "getCookies (headers request) (getCookieName OAUTH_COOKIE_NAME (isHttps (url request)))")
  case None
  from handleCallback_missing_cookie[OF None, of base getToken uuid cfg options w] assms show ?thesis by simp
next
  case (Some oid)
  obtain r w1 where gd: "getAndDeleteOAuthSession oid w = (r, w1)" by (cases "getAndDeleteOAuthSession oid w")
  show ?thesis
  proof (cases r)
    case (Inl e)
    with handleCallback_consume_fails[OF Some, of w _ w1 base getToken uuid cfg options] gd assms show ?thesis by simp
  next
    case (Inr s)
    with gd have gd': "getAndDeleteOAuthSession oid w = (Inr s, w1)" by simp
    from getAndDelete_Inr[OF gd'] obtain entry where
      e: "oauth_sessions w oid = Some entry" "clock w < expires_at entry" "s = session entry"
         "w1 = w\<lparr>oauth_sessions := (oauth_sessions w)(oid := None)\<rparr>" by blast
    show ?thesis
    proof (cases "getToken cfg (url request) s")
      case (Inl e')
      from handleCallback_exchange_fails[where getToken=getToken and cfg=cfg, OF Some gd' Inl, of base uuid options] assms show ?thesis by simp
    next
      case (Inr tok)
      note tok = this
      show ?thesis
      proof (cases "setCookie (redirect (successUrl s)) (callback_cookie base request uuid options)")
        case (Inl e')
        from handleCallback_cookie_refused[where getToken=getToken and cfg=cfg, OF Some gd' tok Inl] assms
        show ?thesis by simp
      next
        case (Inr resp)
        from handleCallback_succeeds[where getToken=getToken and cfg=cfg, OF Some gd' tok Inr] assms
        have "res = \<lparr>response = resp, sessionId = uuid, tokens = tok\<rparr>"
          and "w' = setSiteSession uuid (expireIn_of (callback_cookie base request uuid options))
              (w1\<lparr>token_requests := token_requests w1 @ [(url request, s)]\<rparr>)" by simp_all
        with Some e tok Inr show ?thesis by simp
      qed
    qed
  qed
qed


lemma callback_cookie_name:
  "name (callback_cookie base request sid options) =
     over (Val (getCookieName SITE_COOKIE_NAME (isHttps (url request)))) (override_of name options)"
  by (simp add: callback_cookie_def spread_opt_def spread_def override_of_def over_def split: option.splits)


lemma callback_cookie_maxAge:
  "maxAge (callback_cookie base request sid options) = over (maxAge base) (override_of maxAge options)"
  by (simp add: callback_cookie_def spread_opt_def spread_def override_of_def over_def split: option.splits)

lemma over_Absent: "over a Absent = a"
  by (simp add: over_def)

lemma over_present: "b \<noteq> Absent \<Longrightarrow> over a b = b"
  by (cases b) (simp_all add: over_def)

lemma callback_cookie_named:
  assumes "override_of name options = Absent"
  shows "truthy_string (name (callback_cookie base request sid options))
           = Some (getCookieName SITE_COOKIE_NAME (isHttps (url request)))"
  by (simp add: callback_cookie_name assms over_Absent truthy_string_def getCookieName_def
        SITE_COOKIE_NAME_def)

lemma handleCallback_Inr_cookies:
  assumes "handleCallback base getToken uuid request cfg options w = (Inr res, w')"
  shows "set_cookies (response res) =
           (case toString (callback_cookie base request uuid options) of
              Inr (Some v) \<Rightarrow> [v] | _ \<Rightarrow> [])"
  using handleCallback_Inr[OF assms]
  by (elim exE conjE) (simp add: setCookie_redirect(3))

lemma handleCallback_Inr_redirect:
  assumes "handleCallback base getToken uuid request cfg options w = (Inr res, w')"
  shows "status (response res) = 302"
  using handleCallback_Inr[OF assms]
  by (elim exE conjE) (simp add: setCookie_redirect(1))

lemma handleCallback_Inr_sessionId:
  assumes "handleCallback base getToken uuid request cfg options w = (Inr res, w')"
  shows "sessionId res = uuid"
  using handleCallback_Inr[OF assms]
  by (elim exE conjE) simp

lemma handleCallback_Inr_accepted:
  assumes "handleCallback base getToken uuid request cfg options w = (Inr res, w')"
  shows "\<not> cookie_refused (callback_cookie base request uuid options)"
  using handleCallback_Inr[OF assms]
  by (elim exE conjE) (auto simp: cookie_refused_def setCookie_def split: sum.splits)

lemma handleCallback_Inr_named:
  assumes "handleCallback base getToken uuid request cfg options w = (Inr res, w')"
    and "override_of name options = Absent"
  shows "\<exists>v. toString (callback_cookie base request uuid options) = Inr (Some v) \<and>
           set_cookies (response res) = [v]"
proof -
  let ?c = "callback_cookie base request uuid options"
  from handleCallback_Inr_accepted[OF assms(1)] obtain x where x: "toString ?c = Inr x"
    by (cases "toString ?c") (simp_all add: cookie_refused_def)
  have "x \<noteq> None"
    using x toString_None[of ?c] callback_cookie_named[OF assms(2), of base request uuid] by auto
  then obtain v where "x = Some v" by auto
  with x handleCallback_Inr_cookies[OF assms(1)] show ?thesis by simp
qed

lemma handleCallback_Inr_site_session:
  assumes "handleCallback base getToken uuid request cfg options w = (Inr res, w')"
  shows "site_sessions w' =
           (site_sessions w)(uuid \<mapsto> \<lparr>created_at = clock w,
              expire_in = expireIn_of (callback_cookie base request uuid options)\<rparr>)"
  using handleCallback_Inr[OF assms] by (auto simp: setSiteSession_def)

lemma demo_https_run:
  "\<exists>res w'. handleCallback spec_COOKIE_BASE demo_getToken ''s1'' https_request () None demo_world
      = (Inr res, w')"
  by (simp add: model_defs cookie_defs demo_defs Let_def)

lemma demo_http_run:
  "\<exists>res w'. handleCallback spec_COOKIE_BASE demo_getToken ''s1'' http_request () None demo_world
      = (Inr res, w')"
  by (simp add: model_defs cookie_defs demo_defs Let_def)

lemma override_of_None: "override_of f None = Absent"
  by (simp add: override_of_def cookieOptions_of_def)


lemma override_of_maxAge_override:
  "override_of maxAge (Some (maxAge_override m)) = Val m"
  by (simp add: override_of_def cookieOptions_of_def maxAge_override_def no_cookie_def)

section \<open>The callback step by step\<close>

lemma callback_step_Start:
  "callback_step base getToken uuid request cfg options (Start, w) =
     (case getCookies (headers request) (getCookieName OAUTH_COOKIE_NAME (isHttps (url request))) of
        None \<Rightarrow> (Finished (Inl (Error ''OAuth cookie not found'')), w)
      | Some oid \<Rightarrow>
          (case getAndDeleteOAuthSession oid w of
             (Inl e, w1) \<Rightarrow> (Finished (Inl e), w1)
           | (Inr s, w1) \<Rightarrow> (Consumed s, w1)))"
  by (simp add: callback_step_def)

lemma callback_step_Consumed:
  "callback_step base getToken uuid request cfg options (Consumed s, w) =
     (case getToken cfg (url request) s of
        Inl e \<Rightarrow> (Finished (Inl e), w\<lparr>token_requests := token_requests w @ [(url request, s)]\<rparr>)
      | Inr t \<Rightarrow> (Exchanged s t, w\<lparr>token_requests := token_requests w @ [(url request, s)]\<rparr>))"
  by (simp add: callback_step_def Let_def)

lemma callback_step_Exchanged:
  "callback_step base getToken uuid request cfg options (Exchanged s t, w) =
     (case setCookie (redirect (successUrl s)) (callback_cookie base request uuid options) of
        Inl e \<Rightarrow> (Finished (Inl e), w)
      | Inr r \<Rightarrow>
          (Finished (Inr \<lparr>response = r, sessionId = uuid, tokens = t\<rparr>),
           setSiteSession uuid (expireIn_of (callback_cookie base request uuid options)) w))"
  by (simp add: callback_step_def Let_def callback_cookie_def split: sum.splits)

lemma callback_step_Finished:
  "callback_step base getToken uuid request cfg options (Finished r, w) = (Finished r, w)"
  by (simp add: callback_step_def)

text \<open>A callback that is served alone goes through its three steps and ends as \<open>handleCallback\<close> does.\<close>

lemma callback_step_thrice:
  "callback_step base getToken uuid request cfg options
     (callback_step base getToken uuid request cfg options
        (callback_step base getToken uuid request cfg options (Start, w)))
   = (Finished (fst (handleCallback base getToken uuid request cfg options w)),
      snd (handleCallback base getToken uuid request cfg options w))"
proof (cases "getCookies (headers request) (getCookieName OAUTH_COOKIE_NAME (isHttps (url request)))")
  case None
  then show ?thesis
    by (simp add: callback_step_Start callback_step_Finished handleCallback_missing_cookie)
next
  case (Some oid)
  obtain r w1 where gd: "getAndDeleteOAuthSession oid w = (r, w1)"
    by (cases "getAndDeleteOAuthSession oid w")
  show ?thesis
  proof (cases r)
    case (Inl e)
    with Some gd show ?thesis
      by (simp add: callback_step_Start callback_step_Finished
            handleCallback_consume_fails[where oid=oid and e=e and ?w1.0=w1])
  next
    case (Inr s)
    note s = this
    show ?thesis
    proof (cases "getToken cfg (url request) s")
      case (Inl e)
      with Some gd s show ?thesis
        by (simp add: callback_step_Start callback_step_Consumed callback_step_Finished
              handleCallback_exchange_fails[where oid=oid and s=s and ?w1.0=w1 and e=e])
    next
      case (Inr t)
      note t = this
      show ?thesis
      proof (cases "setCookie (redirect (successUrl s)) (callback_cookie base request uuid options)")
        case (Inl e)
        with Some gd s t show ?thesis
          by (simp add: callback_step_Start callback_step_Consumed callback_step_Exchanged
                handleCallback_cookie_refused[where oid=oid and s=s and ?w1.0=w1 and tok=t and e=e])
      next
        case (Inr resp)
        with Some gd s t show ?thesis
          by (simp add: callback_step_Start callback_step_Consumed callback_step_Exchanged
                handleCallback_succeeds[where oid=oid and s=s and ?w1.0=w1 and tok=t and r=resp])
      qed
    qed
  qed
qed

lemma race_inv_sym:
  "race_inv getToken cfg a b oid entry ra rb (p, q, w) = race_inv getToken cfg b a oid entry rb ra (q, p, w)"
  by (auto simp: race_inv_def)

lemma callback_step_rank:
  "min 3 (Suc (rank p)) \<le> rank (fst (callback_step base getToken uuid request cfg options (p, w)))"
  by (cases p)
     (auto simp: callback_step_def Let_def split: option.splits prod.splits sum.splits)

lemma callback_step_inv:
  assumes inv: "race_inv getToken cfg a b oid entry ra rb (p, q, w)"
    and cookie: "getCookies (headers (call_request a))
        (getCookieName OAUTH_COOKIE_NAME (isHttps (url (call_request a)))) = Some oid"
    and live: "oauth_sessions w0 oid = Some entry" "clock w0 < expires_at entry"
    and ra: "ra = fst (handleCallback base getToken (call_uuid a) (call_request a) cfg (call_options a) w0)"
    and step: "callback_step base getToken (call_uuid a) (call_request a) cfg (call_options a) (p, w) = (p', w')"
  shows "race_inv getToken cfg a b oid entry ra rb (p', q, w')"
proof (cases p)
  case Start
  show ?thesis
  proof (cases "oauth_sessions w oid")
    case None
    with Start cookie step have "p' = Finished (Inl NotFoundError)" "w' = w"
      by (auto simp: callback_step_Start getAndDeleteOAuthSession_def)
    with inv Start None show ?thesis
      by (auto simp: race_inv_def lost_race_def holds_record_def)
  next
    case (Some e)
    with inv Start have e: "e = entry" "clock w < expires_at entry" "q = Start"
      by (auto simp: race_inv_def)
    with Some Start cookie step have "p' = Consumed (session entry)"
        "w' = w\<lparr>oauth_sessions := (oauth_sessions w)(oid := None)\<rparr>"
      by (auto simp: callback_step_Start getAndDeleteOAuthSession_def)
    with e show ?thesis
      by (simp add: race_inv_def lost_race_def holds_record_def)
  qed
next
  case (Consumed s)
  with inv have s: "s = session entry" "oauth_sessions w oid = None" "lost_race q"
    by (auto simp: race_inv_def holds_record_def lost_race_def)
  show ?thesis
  proof (cases "getToken cfg (url (call_request a)) (session entry)")
    case (Inl e)
    from handleCallback_exchange_fails[where getToken=getToken and cfg=cfg,
           OF cookie getAndDelete_live[OF live] Inl, of base "call_uuid a" "call_options a"] ra
    have "ra = Inl e" by simp
    moreover from Consumed s Inl step have "p' = Finished (Inl e)" "oauth_sessions w' = oauth_sessions w"
      by (auto simp: callback_step_Consumed)
    ultimately show ?thesis using s
      by (simp add: race_inv_def holds_record_def)
  next
    case (Inr t)
    with Consumed s step have "p' = Exchanged (session entry) t" "oauth_sessions w' = oauth_sessions w"
      by (auto simp: callback_step_Consumed)
    with s Inr show ?thesis
      by (simp add: race_inv_def holds_record_def)
  qed
next
  case (Exchanged s t)
  with inv have s: "s = session entry" "oauth_sessions w oid = None" "lost_race q"
      "getToken cfg (url (call_request a)) (session entry) = Inr t"
    by (auto simp: race_inv_def holds_record_def lost_race_def)
  let ?c = "callback_cookie base (call_request a) (call_uuid a) (call_options a)"
  show ?thesis
  proof (cases "setCookie (redirect (successUrl (session entry))) ?c")
    case (Inl e)
    from handleCallback_cookie_refused[where getToken=getToken and cfg=cfg,
           OF cookie getAndDelete_live[OF live] s(4) Inl] ra
    have "ra = Inl e" by simp
    moreover from Exchanged s Inl step have "p' = Finished (Inl e)" "oauth_sessions w' = oauth_sessions w"
      by (auto simp: callback_step_Exchanged)
    ultimately show ?thesis using s
      by (simp add: race_inv_def holds_record_def)
  next
    case (Inr r)
    from handleCallback_succeeds[where getToken=getToken and cfg=cfg,
           OF cookie getAndDelete_live[OF live] s(4) Inr] ra
    have "ra = Inr \<lparr>response = r, sessionId = call_uuid a, tokens = t\<rparr>" by simp
    moreover from Exchanged s Inr step have
      "p' = Finished (Inr \<lparr>response = r, sessionId = call_uuid a, tokens = t\<rparr>)"
      "oauth_sessions w' = oauth_sessions w"
      by (auto simp: callback_step_Exchanged setSiteSession_def)
    ultimately show ?thesis using s
      by (simp add: race_inv_def holds_record_def)
  qed
next
  case (Finished r)
  with step have "p' = p" "w' = w" by (auto simp: callback_step_Finished)
  with inv show ?thesis by simp
qed

lemma interleave_rank_inv:
  assumes cookie_a: "getCookies (headers (call_request a))
             (getCookieName OAUTH_COOKIE_NAME (isHttps (url (call_request a)))) = Some oid"
    and cookie_b: "getCookies (headers (call_request b))
             (getCookieName OAUTH_COOKIE_NAME (isHttps (url (call_request b)))) = Some oid"
    and live: "oauth_sessions w0 oid = Some entry" "clock w0 < expires_at entry"
    and ra: "ra = fst (handleCallback base getToken (call_uuid a) (call_request a) cfg (call_options a) w0)"
    and rb: "rb = fst (handleCallback base getToken (call_uuid b) (call_request b) cfg (call_options b) w0)"
  shows "race_inv getToken cfg a b oid entry ra rb (p, q, w) \<Longrightarrow>
         interleave base getToken cfg a b schedule (p, q, w) = (p', q', w') \<Longrightarrow>
         race_inv getToken cfg a b oid entry ra rb (p', q', w') \<and>
         min 3 (rank p + picks True schedule) \<le> rank p' \<and>
         min 3 (rank q + picks False schedule) \<le> rank q'"
proof (induction schedule arbitrary: p q w)
  case Nil
  then show ?case by (simp add: picks_def)
next
  case (Cons first schedule)
  show ?case
  proof (cases first)
    case True
    obtain p1 w1 where st: "callback_step base getToken (call_uuid a) (call_request a) cfg
         (call_options a) (p, w) = (p1, w1)"
      by (cases "callback_step base getToken (call_uuid a) (call_request a) cfg (call_options a) (p, w)")
    from Cons.prems(2) True st
    have run: "interleave base getToken cfg a b schedule (p1, q, w1) = (p', q', w')" by simp
    have inv1: "race_inv getToken cfg a b oid entry ra rb (p1, q, w1)"
      by (rule callback_step_inv[OF Cons.prems(1) cookie_a live ra st])
    from Cons.IH[OF inv1 run] have
      i: "race_inv getToken cfg a b oid entry ra rb (p', q', w')"
      and rp: "min 3 (rank p1 + picks True schedule) \<le> rank p'"
      and rq: "min 3 (rank q + picks False schedule) \<le> rank q'" by simp_all
    from callback_step_rank[of p base getToken "call_uuid a" "call_request a" cfg "call_options a" w] st
    have "min 3 (Suc (rank p)) \<le> rank p1" by simp
    with rp have "min 3 (rank p + picks True (first # schedule)) \<le> rank p'"
      using True by (simp add: picks_def)
    moreover from rq True have "min 3 (rank q + picks False (first # schedule)) \<le> rank q'"
      by (simp add: picks_def)
    ultimately show ?thesis using i by simp
  next
    case False
    obtain q1 w1 where st: "callback_step base getToken (call_uuid b) (call_request b) cfg
         (call_options b) (q, w) = (q1, w1)"
      by (cases "callback_step base getToken (call_uuid b) (call_request b) cfg (call_options b) (q, w)")
    from Cons.prems(2) False st
    have run: "interleave base getToken cfg a b schedule (p, q1, w1) = (p', q', w')" by simp
    from Cons.prems(1) have "race_inv getToken cfg b a oid entry rb ra (q, p, w)"
      by (simp add: race_inv_sym)
    from callback_step_inv[OF this cookie_b live rb st]
    have inv1: "race_inv getToken cfg a b oid entry ra rb (p, q1, w1)" by (simp add: race_inv_sym)
    from Cons.IH[OF inv1 run] have
      i: "race_inv getToken cfg a b oid entry ra rb (p', q', w')"
      and rp: "min 3 (rank p + picks True schedule) \<le> rank p'"
      and rq: "min 3 (rank q1 + picks False schedule) \<le> rank q'" by simp_all
    from callback_step_rank[of q base getToken "call_uuid b" "call_request b" cfg "call_options b" w] st
    have "min 3 (Suc (rank q)) \<le> rank q1" by simp
    with rq have "min 3 (rank q + picks False (first # schedule)) \<le> rank q'"
      using False by (simp add: picks_def)
    moreover from rp False have "min 3 (rank p + picks True (first # schedule)) \<le> rank p'"
      by (simp add: picks_def)
    ultimately show ?thesis using i by simp
  qed
qed

lemma rank_3: "3 \<le> rank p \<Longrightarrow> \<exists>r. p = Finished r"
  by (cases p) simp_all

section \<open>The sample inputs evaluated\<close>

lemma demo_cookie_found:
  "getCookies (headers http_request)
      (getCookieName OAUTH_COOKIE_NAME (isHttps (url http_request))) = Some ''h1''"
  by (simp add: getCookies_def http_request_def getCookieName_def isHttps_def OAUTH_COOKIE_NAME_def)


lemma demo_calls_cookie:
  "getCookies (headers (call_request first_call))
       (getCookieName OAUTH_COOKIE_NAME (isHttps (url (call_request first_call)))) = Some ''h1''"
  "getCookies (headers (call_request second_call))
       (getCookieName OAUTH_COOKIE_NAME (isHttps (url (call_request second_call)))) = Some ''h1''"
  by (simp_all add: first_call_def second_call_def getCookies_def http_request_def getCookieName_def
        isHttps_def OAUTH_COOKIE_NAME_def)

lemma demo_calls_exchange:
  "demo_getToken () (url (call_request first_call))
       (session \<lparr>session = demo_session, expires_at = 600000\<rparr>) = Inr ''access-token''"
  "demo_getToken () (url (call_request second_call))
       (session \<lparr>session = demo_session, expires_at = 600000\<rparr>) = Inr ''access-token''"
  by (simp_all add: demo_getToken_def demo_session_def)

lemma demo_entry:
  "oauth_sessions demo_world ''h1'' = Some \<lparr>session = demo_session, expires_at = 600000\<rparr>"
  by (simp add: demo_world_def setOAuthSession_def empty_world_def OAUTH_SESSION_TTL_def)

lemma demo_live:
  "clock demo_world < expires_at \<lparr>session = demo_session, expires_at = 600000\<rparr>"
  by (simp add: demo_world_def setOAuthSession_def empty_world_def)

lemma demo_clock: "clock demo_world = 0"
  by (simp add: demo_world_def setOAuthSession_def empty_world_def)


lemma run1:
  "result_of (fst (interleave spec_COOKIE_BASE demo_getToken () first_call second_call
       [True, False, False, True, False, True] (Start, Start, demo_world))) = Some (Inr ''s1'')"
  by (simp add: callback_step_Start callback_step_Consumed callback_step_Exchanged callback_step_Finished
        demo_calls_cookie demo_calls_exchange getAndDeleteOAuthSession_def demo_entry demo_clock
        result_of_def first_call_def second_call_def setSiteSession_def
        getCookies_def http_request_def getCookieName_def isHttps_def OAUTH_COOKIE_NAME_def
        demo_getToken_def demo_session_def callback_cookie_def cookie_defs setCookie_def redirect_def
        spread_opt_def cookieOptions_of_def SITE_COOKIE_NAME_def spec_COOKIE_BASE_def no_cookie_def
        Let_def)

lemma run2:
  "result_of (fst (snd (interleave spec_COOKIE_BASE demo_getToken () first_call second_call
       [False, True, False, True, False, True] (Start, Start, demo_world)))) = Some (Inr ''s2'')"
  by (simp add: callback_step_Start callback_step_Consumed callback_step_Exchanged callback_step_Finished
        demo_calls_cookie demo_calls_exchange getAndDeleteOAuthSession_def demo_entry demo_clock
        result_of_def first_call_def second_call_def setSiteSession_def
        getCookies_def http_request_def getCookieName_def isHttps_def OAUTH_COOKIE_NAME_def
        demo_getToken_def demo_session_def callback_cookie_def cookie_defs setCookie_def redirect_def
        spread_opt_def cookieOptions_of_def SITE_COOKIE_NAME_def spec_COOKIE_BASE_def no_cookie_def
        Let_def)

lemma demo_accepted:
  "\<not> cookie_refused (callback_cookie spec_COOKIE_BASE http_request ''s1'' None)"
  "\<not> cookie_refused (callback_cookie spec_COOKIE_BASE http_request ''s2'' None)"
  by (simp_all add: callback_cookie_def cookie_defs model_defs demo_defs Let_def)

lemma floor_rat_divide_numeral:
  "\<lfloor>(numeral a :: rat) / numeral b\<rfloor> = numeral a div numeral b"
proof -
  have "(numeral a :: rat) / numeral b = Fract (numeral a) (numeral b)"
    by (simp add: Fract_of_int_quotient)
  then show ?thesis by (simp only: floor_Fract)
qed

lemma integer_of_fraction: "integer_of (Num (3 / 2)) = None"
  by (simp add: integer_of_def floor_rat_divide_numeral)


lemma demo_exchange_any: "demo_getToken () u (session \<lparr>session = demo_session, expires_at = 600000\<rparr>) = Inr ''access-token''"
  by (simp add: demo_getToken_def demo_session_def)

lemma demo_run_http:
  assumes "\<not> cookie_refused (callback_cookie spec_COOKIE_BASE http_request ''s1'' options)"
  shows "\<exists>res w'. handleCallback spec_COOKIE_BASE demo_getToken ''s1'' http_request () options demo_world
           = (Inr res, w')"
proof -
  from setCookie_accepts[OF assms] obtain r where
    "setCookie (redirect (successUrl (session \<lparr>session = demo_session, expires_at = 600000\<rparr>)))
       (callback_cookie spec_COOKIE_BASE http_request ''s1'' options) = Inr r" by blast
  from handleCallback_succeeds[where getToken=demo_getToken and cfg="()",
         OF demo_cookie_found getAndDelete_live[OF demo_entry demo_live] demo_exchange_any this]
  show ?thesis by blast
qed


lemmas cookie_eval = callback_cookie_def cookie_defs getCookieName_def SITE_COOKIE_NAME_def isHttps_def
  spread_opt_def spread_def over_def cookieOptions_of_def Let_def

lemma demo_accepts:
  "\<not> cookie_refused (callback_cookie spec_COOKIE_BASE http_request ''s1'' None)"
  "\<not> cookie_refused (callback_cookie spec_COOKIE_BASE https_request ''s1'' None)"
  "\<not> cookie_refused (callback_cookie spec_COOKIE_BASE http_request ''s1'' (Some secure_override))"
  "\<not> cookie_refused (callback_cookie spec_COOKIE_BASE https_request ''s1'' (Some insecure_override))"
  "\<not> cookie_refused (callback_cookie spec_COOKIE_BASE http_request ''s1'' (Some unnamed_override))"
  by (simp_all add: cookie_eval demo_defs)

lemma demo_accepts_maxAge:
  "cookie_refused (callback_cookie spec_COOKIE_BASE http_request ''s1'' (Some (maxAge_override x)))
     = (case integer_of x of Some m \<Rightarrow> m < 0 | None \<Rightarrow> False)"
  by (simp add: cookie_eval demo_defs split: option.splits)

lemma demo_accepts_undefined_maxAge:
  "\<not> cookie_refused (callback_cookie spec_COOKIE_BASE http_request ''s1'' (Some undefined_maxAge))"
  by (simp add: cookie_eval demo_defs)

lemma override_of_undefined_maxAge: "override_of maxAge (Some undefined_maxAge) = Undefined"
  by (simp add: override_of_def cookieOptions_of_def undefined_maxAge_def no_cookie_def)

lemma created_ttl_run:
  assumes "handleCallback base getToken uuid request cfg options w = (Inr res, w')"
  shows "created_ttl (snd (handleCallback base getToken uuid request cfg options w)) uuid
           = created_ttl w' (sessionId res)"
  using assms handleCallback_Inr_sessionId[OF assms] by simp

lemma demo_calls_accepted:
  "\<not> cookie_refused (callback_cookie spec_COOKIE_BASE (call_request first_call) (call_uuid first_call)
       (call_options first_call))"
  "\<not> cookie_refused (callback_cookie spec_COOKIE_BASE (call_request second_call) (call_uuid second_call)
       (call_options second_call))"
  by (simp_all add: first_call_def second_call_def demo_accepted)

lemma expireIn_of_maxAge: "maxAge c = maxAge c' \<Longrightarrow> expireIn_of c = expireIn_of c'"
  by (simp add: expireIn_of_def)

section \<open>\<^verbatim>\<open>setCookie\<close> on the sample inputs\<close>

text \<open>
  A name with the \<open>__Secure\<close> prefix makes the cookie \<open>Secure\<close> over http, with no
  \<open>secure\<close> property given.
\<close>

lemma secure_prefix_forces_Secure:
  "map wire_secure (emitted_cookies (fst (handleCallback spec_COOKIE_BASE demo_getToken ''s1'' http_request ()
       (Some identity_override) demo_world))) = [True]"
  by (simp add: model_defs cookie_defs demo_defs Let_def)

text \<open>
  Under the \<open>__Host\<close> name of https the cookie keeps \<open>Secure\<close> and \<open>Path=/\<close> and gets no
  \<open>Domain\<close>, whatever \<open>cookieOptions\<close> say.
\<close>

lemma host_prefix_fixes_attributes:
  "map wire_secure (emitted_cookies (fst (handleCallback spec_COOKIE_BASE demo_getToken ''s1'' https_request ()
       (Some insecure_override) demo_world))) = [True] \<and>
   map wire_path (emitted_cookies (fst (handleCallback spec_COOKIE_BASE demo_getToken ''s1'' https_request ()
       (Some domain_path_override) demo_world))) = [Some ''/''] \<and>
   map wire_domain (emitted_cookies (fst (handleCallback spec_COOKIE_BASE demo_getToken ''s1'' https_request ()
       (Some domain_path_override) demo_world))) = [None]"
  by (simp add: model_defs cookie_defs demo_defs Let_def)

text \<open>An empty name: the callback succeeds and sets no cookie.\<close>

lemma empty_name_sets_no_cookie:
  "map_sum id sessionId (fst (handleCallback spec_COOKIE_BASE demo_getToken ''s1'' http_request ()
       (Some unnamed_override) demo_world)) = Inr ''s1'' \<and>
   emitted_cookies (fst (handleCallback spec_COOKIE_BASE demo_getToken ''s1'' http_request ()
       (Some unnamed_override) demo_world)) = []"
  by (simp add: model_defs cookie_defs demo_defs Let_def)

text \<open>A value with a space: \<^verbatim>\<open>setCookie\<close> throws, and the callback with it.\<close>

lemma invalid_value_is_refused:
  "fst (handleCallback spec_COOKIE_BASE demo_getToken ''s1'' http_request ()
       (Some spaced_value_override) demo_world) = Inl (InvalidCookie ValuePart)"
  by (simp add: model_defs cookie_defs demo_defs Let_def)

section \<open>Claims\<close>

subsection \<open>C1: the \<open>Secure\<close> attribute of the site cookie\<close>





subsection \<open>C2: two callbacks with the same handshake cookie\<close>

text \<open>
  C2: two callbacks carry the same handshake cookie, whose record is live, and their
  awaited operations complete in any order (every schedule that lets both finish). Then
  exactly one of them gets the record from the atomic read-and-delete: it ends with the
  result it would have had alone, and the other ends with \<open>NotFoundError\<close>. When the
  token exchange succeeds for the record and \<^verbatim>\<open>setCookie\<close> does not refuse the cookies,
  exactly one of the two callbacks succeeds.
\<close>

theorem concurrent_callbacks_one_winner:
  assumes cookie_a: "getCookies (headers (call_request a))
             (getCookieName OAUTH_COOKIE_NAME (isHttps (url (call_request a)))) = Some oid"
    and cookie_b: "getCookies (headers (call_request b))
             (getCookieName OAUTH_COOKIE_NAME (isHttps (url (call_request b)))) = Some oid"
    and live: "oauth_sessions w oid = Some entry" "clock w < expires_at entry"
    and enough: "3 \<le> picks True schedule" "3 \<le> picks False schedule"
  shows "\<exists>ra rb w'. interleave base getToken cfg a b schedule (Start, Start, w)
             = (Finished ra, Finished rb, w') \<and>
           ((ra = fst (handleCallback base getToken (call_uuid a) (call_request a) cfg (call_options a) w) \<and>
             rb = Inl NotFoundError) \<or>
            (ra = Inl NotFoundError \<and>
             rb = fst (handleCallback base getToken (call_uuid b) (call_request b) cfg (call_options b) w))) \<and>
           (getToken cfg (url (call_request a)) (session entry) = Inr ta \<and>
            getToken cfg (url (call_request b)) (session entry) = Inr tb \<and>
            \<not> cookie_refused (callback_cookie base (call_request a) (call_uuid a) (call_options a)) \<and>
            \<not> cookie_refused (callback_cookie base (call_request b) (call_uuid b) (call_options b)) \<longrightarrow>
              ((\<exists>res. ra = Inr res) \<and> rb = Inl NotFoundError) \<or>
              (ra = Inl NotFoundError \<and> (\<exists>res. rb = Inr res)))"
proof -
  let ?ra = "fst (handleCallback base getToken (call_uuid a) (call_request a) cfg (call_options a) w)"
  let ?rb = "fst (handleCallback base getToken (call_uuid b) (call_request b) cfg (call_options b) w)"
  let ?ca = "callback_cookie base (call_request a) (call_uuid a) (call_options a)"
  let ?cb = "callback_cookie base (call_request b) (call_uuid b) (call_options b)"
  obtain p' q' w' where run: "interleave base getToken cfg a b schedule (Start, Start, w) = (p', q', w')"
    by (cases "interleave base getToken cfg a b schedule (Start, Start, w)")
  have inv0: "race_inv getToken cfg a b oid entry ?ra ?rb (Start, Start, w)"
    using live by (simp add: race_inv_def)
  from interleave_rank_inv[OF cookie_a cookie_b live refl refl inv0 run] enough
  have i: "race_inv getToken cfg a b oid entry ?ra ?rb (p', q', w')" and "3 \<le> rank p'" "3 \<le> rank q'"
    by simp_all
  then obtain ra rb where f: "p' = Finished ra" "q' = Finished rb"
    using rank_3 by blast
  with i have d: "(ra = ?ra \<and> rb = Inl NotFoundError) \<or> (ra = Inl NotFoundError \<and> rb = ?rb)"
    by (auto simp: race_inv_def holds_record_def lost_race_def)
  have oka: "\<exists>res. ?ra = Inr res"
    if "getToken cfg (url (call_request a)) (session entry) = Inr ta" "\<not> cookie_refused ?ca"
  proof -
    from setCookie_accepts[OF that(2)] obtain r where
      "setCookie (redirect (successUrl (session entry))) ?ca = Inr r" by blast
    from handleCallback_succeeds[where getToken=getToken and cfg=cfg,
           OF cookie_a getAndDelete_live[OF live] that(1) this]
    show ?thesis by simp
  qed
  have okb: "\<exists>res. ?rb = Inr res"
    if "getToken cfg (url (call_request b)) (session entry) = Inr tb" "\<not> cookie_refused ?cb"
  proof -
    from setCookie_accepts[OF that(2)] obtain r where
      "setCookie (redirect (successUrl (session entry))) ?cb = Inr r" by blast
    from handleCallback_succeeds[where getToken=getToken and cfg=cfg,
           OF cookie_b getAndDelete_live[OF live] that(1) this]
    show ?thesis by simp
  qed
  from d oka okb have "getToken cfg (url (call_request a)) (session entry) = Inr ta \<and>
            getToken cfg (url (call_request b)) (session entry) = Inr tb \<and>
            \<not> cookie_refused ?ca \<and> \<not> cookie_refused ?cb \<longrightarrow>
              ((\<exists>res. ra = Inr res) \<and> rb = Inl NotFoundError) \<or>
              (ra = Inl NotFoundError \<and> (\<exists>res. rb = Inr res))"
    by auto
  with run f d show ?thesis by simp
qed

theorem concurrent_callbacks_one_winner_witness:
  "result_of (fst (interleave spec_COOKIE_BASE demo_getToken () first_call second_call
       [True, False, False, True, False, True] (Start, Start, demo_world))) = Some (Inr ''s1'') \<and>
   result_of (fst (snd (interleave spec_COOKIE_BASE demo_getToken () first_call second_call
       [True, False, False, True, False, True] (Start, Start, demo_world)))) = Some (Inl NotFoundError) \<and>
   result_of (fst (interleave spec_COOKIE_BASE demo_getToken () first_call second_call
       [False, True, False, True, False, True] (Start, Start, demo_world))) = Some (Inl NotFoundError) \<and>
   result_of (fst (snd (interleave spec_COOKIE_BASE demo_getToken () first_call second_call
       [False, True, False, True, False, True] (Start, Start, demo_world)))) = Some (Inr ''s2'')"
proof -
  have n: "3 \<le> picks True [True, False, False, True, False, True]"
          "3 \<le> picks False [True, False, False, True, False, True]"
    and m: "3 \<le> picks True [False, True, False, True, False, True]"
          "3 \<le> picks False [False, True, False, True, False, True]"
    by (simp_all add: picks_def)
  from concurrent_callbacks_one_winner[where getToken=demo_getToken and cfg="()" and base=spec_COOKIE_BASE,
          OF demo_calls_cookie demo_entry demo_live n, of "''access-token''" "''access-token''"]
       demo_calls_exchange demo_calls_accepted
  obtain ra rb w' where r: "interleave spec_COOKIE_BASE demo_getToken () first_call second_call
       [True, False, False, True, False, True] (Start, Start, demo_world) = (Finished ra, Finished rb, w')"
    and d: "((\<exists>res. ra = Inr res) \<and> rb = Inl NotFoundError) \<or>
            (ra = Inl NotFoundError \<and> (\<exists>res. rb = Inr res))" by auto
  from run1 r have "(case ra of Inl e \<Rightarrow> Inl e | Inr res \<Rightarrow> Inr (sessionId res)) = Inr ''s1''"
    by (simp add: result_of_def)
  with d have "rb = Inl NotFoundError" by auto
  with r run1 have first: "result_of (fst (interleave spec_COOKIE_BASE demo_getToken () first_call second_call
       [True, False, False, True, False, True] (Start, Start, demo_world))) = Some (Inr ''s1'') \<and>
      result_of (fst (snd (interleave spec_COOKIE_BASE demo_getToken () first_call second_call
       [True, False, False, True, False, True] (Start, Start, demo_world)))) = Some (Inl NotFoundError)"
    by (simp add: result_of_def)
  from concurrent_callbacks_one_winner[where getToken=demo_getToken and cfg="()" and base=spec_COOKIE_BASE,
          OF demo_calls_cookie demo_entry demo_live m, of "''access-token''" "''access-token''"]
       demo_calls_exchange demo_calls_accepted
  obtain ra2 rb2 w2 where r2: "interleave spec_COOKIE_BASE demo_getToken () first_call second_call
       [False, True, False, True, False, True] (Start, Start, demo_world) = (Finished ra2, Finished rb2, w2)"
    and d2: "((\<exists>res. ra2 = Inr res) \<and> rb2 = Inl NotFoundError) \<or>
            (ra2 = Inl NotFoundError \<and> (\<exists>res. rb2 = Inr res))" by auto
  from run2 r2 have "(case rb2 of Inl e \<Rightarrow> Inl e | Inr res \<Rightarrow> Inr (sessionId res)) = Inr ''s2''"
    by (simp add: result_of_def)
  with d2 have "ra2 = Inl NotFoundError" by auto
  with r2 run2 have "result_of (fst (interleave spec_COOKIE_BASE demo_getToken () first_call second_call
       [False, True, False, True, False, True] (Start, Start, demo_world))) = Some (Inl NotFoundError) \<and>
      result_of (fst (snd (interleave spec_COOKIE_BASE demo_getToken () first_call second_call
       [False, True, False, True, False, True] (Start, Start, demo_world)))) = Some (Inr ''s2'')"
    by (simp add: result_of_def)
  with first show ?thesis by simp
qed

subsection \<open>C3: the handshake record is consumed once\<close>

text \<open>
  C3: a handshake record created under an id (as sign-in creates it, through the
  Session Manager's \<open>create\<close>) is returned by the read-and-delete exactly once: while it
  has not expired the first consume returns the stored record, and every later consume
  of that id answers \<open>NotFoundError\<close>; so does a consume of an expired id and of an
  unknown id.
\<close>

theorem handshake_consumed_exactly_once:
  "(d < OAUTH_SESSION_TTL \<longrightarrow>
      (\<exists>w2. getAndDeleteOAuthSession oid (advance d (setOAuthSession oid s w)) = (Inr s, w2) \<and>
            (\<forall>d'. getAndDeleteOAuthSession oid (advance d' w2) = (Inl NotFoundError, advance d' w2)))) \<and>
   (OAUTH_SESSION_TTL \<le> d \<longrightarrow>
      getAndDeleteOAuthSession oid (advance d (setOAuthSession oid s w))
        = (Inl NotFoundError, advance d (setOAuthSession oid s w))) \<and>
   (oauth_sessions w oid = None \<longrightarrow> getAndDeleteOAuthSession oid w = (Inl NotFoundError, w))"
  by (simp add: getAndDeleteOAuthSession_def advance_def setOAuthSession_def)

theorem handshake_consumed_exactly_once_witness:
  "fst (getAndDeleteOAuthSession ''h1'' (advance 5000 demo_world)) = Inr demo_session \<and>
   fst (getAndDeleteOAuthSession ''h1''
          (snd (getAndDeleteOAuthSession ''h1'' (advance 5000 demo_world)))) = Inl NotFoundError \<and>
   fst (getAndDeleteOAuthSession ''h1'' (advance 600000 demo_world)) = Inl NotFoundError \<and>
   fst (getAndDeleteOAuthSession ''h2'' demo_world) = Inl NotFoundError"
proof -
  have a: "(5000::nat) < OAUTH_SESSION_TTL" and b: "OAUTH_SESSION_TTL \<le> (600000::nat)"
    by (simp_all add: OAUTH_SESSION_TTL_def)
  have c: "oauth_sessions demo_world ''h2'' = None"
    by (simp add: demo_world_def setOAuthSession_def empty_world_def)
  from handshake_consumed_exactly_once[of 5000 "''h1''" demo_session empty_world] a obtain w2 where
    "getAndDeleteOAuthSession ''h1'' (advance 5000 demo_world) = (Inr demo_session, w2)"
    "getAndDeleteOAuthSession ''h1'' (advance 0 w2) = (Inl NotFoundError, advance 0 w2)"
    unfolding demo_world_def by blast
  moreover from handshake_consumed_exactly_once[of 600000 "''h1''" demo_session empty_world] b
  have "getAndDeleteOAuthSession ''h1'' (advance 600000 demo_world)
        = (Inl NotFoundError, advance 600000 demo_world)"
    unfolding demo_world_def by blast
  moreover from handshake_consumed_exactly_once[of _ "''h2''" _ demo_world] c
  have "getAndDeleteOAuthSession ''h2'' demo_world = (Inl NotFoundError, demo_world)" by blast
  ultimately show ?thesis by (simp add: advance_def)
qed

subsection \<open>C4: no handshake cookie\<close>

text \<open>
  C4: when the request carries no cookie under the handshake cookie name computed for its
  scheme, the callback throws the missing-cookie error and leaves the world as it was: no
  handshake record consumed, no token request sent, no site session created.
\<close>

theorem missing_handshake_cookie_is_fatal:
  assumes "getCookies (headers request) (getCookieName OAUTH_COOKIE_NAME (isHttps (url request))) = None"
  shows "handleCallback base getToken uuid request cfg options w
           = (Inl (Error ''OAuth cookie not found''), w)"
  using assms by (rule handleCallback_missing_cookie)

theorem missing_handshake_cookie_is_fatal_witness:
  "handleCallback spec_COOKIE_BASE demo_getToken ''s1'' misnamed_request () None demo_world
     = (Inl (Error ''OAuth cookie not found''), demo_world)"
proof -
  have "getCookies (headers misnamed_request)
          (getCookieName OAUTH_COOKIE_NAME (isHttps (url misnamed_request))) = None"
    by (simp add: getCookies_def misnamed_request_def getCookieName_def isHttps_def OAUTH_COOKIE_NAME_def)
  from missing_handshake_cookie_is_fatal[OF this] show ?thesis .
qed

subsection \<open>C5: a failed token exchange\<close>

text \<open>
  C5: when the handshake cookie is found, its record is live and the token exchange
  fails, the callback throws the error of the exchange; the world differs from the one
  before only in the deleted handshake record and the token request that was sent. No
  site session is created, and there is no response to carry a cookie.
\<close>

theorem failed_exchange_leaves_no_site_session:
  assumes "getCookies (headers request) (getCookieName OAUTH_COOKIE_NAME (isHttps (url request))) = Some oid"
    and "oauth_sessions w oid = Some entry" and "clock w < expires_at entry"
    and "getToken cfg (url request) (session entry) = Inl e"
  shows "handleCallback base getToken uuid request cfg options w =
           (Inl e, w\<lparr>oauth_sessions := (oauth_sessions w)(oid := None),
                      token_requests := token_requests w @ [(url request, session entry)]\<rparr>)"
  using handleCallback_exchange_fails[where getToken=getToken and cfg=cfg, OF assms(1) getAndDelete_live[OF assms(2,3)] assms(4)]
  by simp

theorem failed_exchange_leaves_no_site_session_witness:
  "fst (handleCallback spec_COOKIE_BASE rejecting_getToken ''s1'' http_request () None demo_world)
     = Inl (TokenExchangeError ''invalid_grant'') \<and>
   site_sessions (snd (handleCallback spec_COOKIE_BASE rejecting_getToken ''s1'' http_request () None
      demo_world)) = site_sessions demo_world \<and>
   oauth_sessions (snd (handleCallback spec_COOKIE_BASE rejecting_getToken ''s1'' http_request () None
      demo_world)) ''h1'' = None"
proof -
  have a: "getCookies (headers http_request)
          (getCookieName OAUTH_COOKIE_NAME (isHttps (url http_request))) = Some ''h1''"
    by (simp add: getCookies_def http_request_def getCookieName_def isHttps_def OAUTH_COOKIE_NAME_def)
  have b: "oauth_sessions demo_world ''h1'' = Some \<lparr>session = demo_session, expires_at = 600000\<rparr>"
    by (simp add: demo_world_def setOAuthSession_def empty_world_def OAUTH_SESSION_TTL_def)
  have c: "clock demo_world < expires_at \<lparr>session = demo_session, expires_at = 600000\<rparr>"
    by (simp add: demo_world_def setOAuthSession_def empty_world_def)
  have d: "rejecting_getToken () (url http_request) (session \<lparr>session = demo_session, expires_at = 600000\<rparr>)
          = Inl (TokenExchangeError ''invalid_grant'')"
    by (simp add: rejecting_getToken_def)
  from failed_exchange_leaves_no_site_session[where getToken=rejecting_getToken and cfg="()", OF a b c d] show ?thesis by simp
qed


subsection \<open>C6: the successful callback\<close>




subsection \<open>C7: the time-to-live of the site session\<close>

text \<open>
  C7 as stated: the time-to-live passed to the creation of the site session is
  \<open>maxAge * 1000\<close> when \<open>cookieOptions\<close> configure a \<open>maxAge\<close>, and none otherwise. With
  \<open>maxAge = 0\<close> configured, the statement asks for a time-to-live of \<open>0\<close>; the code tests
  \<open>cookie.maxAge\<close> for truthiness and passes none.
\<close>

theorem zero_maxAge_ttl_counterexample:
  "override_of maxAge (Some (maxAge_override (Num 0))) = Val (Num 0) \<and>
   created_ttl (snd (handleCallback spec_COOKIE_BASE demo_getToken ''s1'' http_request ()
       (Some (maxAge_override (Num 0))) demo_world)) ''s1'' = Some None \<and>
   created_ttl (snd (handleCallback spec_COOKIE_BASE demo_getToken ''s1'' http_request ()
       (Some (maxAge_override (Num 0))) demo_world)) ''s1'' \<noteq> Some (Some (Num (0 * 1000)))"
  by (simp add: model_defs cookie_defs demo_defs truthy_number_def Let_def)

text \<open>
  C7 as amended: after a successful callback the site session was created with the
  time-to-live \<open>maxAge * 1000\<close>, the product of doubles, when \<open>cookieOptions\<close> configure a
  truthy \<open>maxAge\<close> (neither \<open>0\<close> nor \<^verbatim>\<open>NaN\<close>); this is exactly \<open>maxAge * 1000\<close> for a whole
  \<open>maxAge\<close> with \<open>0 < maxAge * 1000 < 2 ^ 53\<close>. It was created with none when the
  configured \<open>maxAge\<close> is \<open>0\<close>, \<^verbatim>\<open>NaN\<close> or \<^verbatim>\<open>undefined\<close>. When \<open>cookieOptions\<close> configure
  no \<open>maxAge\<close>, the \<open>maxAge\<close> of \<^verbatim>\<open>COOKIE_BASE\<close> decides by the same rule: none when
  \<^verbatim>\<open>COOKIE_BASE\<close> has no \<open>maxAge\<close>.
\<close>

theorem site_session_ttl_from_maxAge:
  assumes "handleCallback base getToken uuid request cfg options w = (Inr res, w')"
  shows "(\<forall>x. override_of maxAge options = Val x \<and> truthy_number x \<longrightarrow>
            created_ttl w' (sessionId res) = Some (Some (times_number x SECOND))) \<and>
         (\<forall>m. override_of maxAge options = Val (Num (of_int m)) \<and> 0 < m \<and> m * 1000 < 2 ^ 53 \<longrightarrow>
            created_ttl w' (sessionId res) = Some (Some (Num (of_int (m * 1000))))) \<and>
         (\<forall>x. override_of maxAge options = Val x \<and> \<not> truthy_number x \<longrightarrow>
            created_ttl w' (sessionId res) = Some None) \<and>
         (override_of maxAge options = Undefined \<longrightarrow>
            created_ttl w' (sessionId res) = Some None) \<and>
         (override_of maxAge options = Absent \<longrightarrow>
            created_ttl w' (sessionId res) = Some (expireIn_of base)) \<and>
         (override_of maxAge options = Absent \<and> maxAge base = Absent \<longrightarrow>
            created_ttl w' (sessionId res) = Some None)"
proof -
  let ?c = "callback_cookie base request uuid options"
  have ttl: "created_ttl w' (sessionId res) = Some (expireIn_of ?c)"
    by (simp add: created_ttl_def handleCallback_Inr_site_session[OF assms]
          handleCallback_Inr_sessionId[OF assms])
  have m: "maxAge ?c = over (maxAge base) (override_of maxAge options)"
    by (rule callback_cookie_maxAge)
  have 1: "\<forall>x. override_of maxAge options = Val x \<and> truthy_number x \<longrightarrow>
            created_ttl w' (sessionId res) = Some (Some (times_number x SECOND))"
    by (simp add: ttl expireIn_of_def m over_def)
  have 2: "\<forall>m. override_of maxAge options = Val (Num (of_int m)) \<and> 0 < m \<and> m * 1000 < 2 ^ 53 \<longrightarrow>
            created_ttl w' (sessionId res) = Some (Some (Num (of_int (m * 1000))))"
  proof (intro allI impI)
    fix k :: int
    assume a: "override_of maxAge options = Val (Num (of_int k)) \<and> 0 < k \<and> k * 1000 < 2 ^ 53"
    then have "truthy_number (Num (of_int k))" by (simp add: truthy_number_def)
    with a 1 have "created_ttl w' (sessionId res) = Some (Some (times_number (Num (of_int k)) SECOND))"
      by blast
    with a show "created_ttl w' (sessionId res) = Some (Some (Num (of_int (k * 1000))))"
      by (simp only: times_SECOND_whole)
  qed
  have 3: "\<forall>x. override_of maxAge options = Val x \<and> \<not> truthy_number x \<longrightarrow>
            created_ttl w' (sessionId res) = Some None"
    by (simp add: ttl expireIn_of_def m over_def)
  have 4: "override_of maxAge options = Undefined \<longrightarrow> created_ttl w' (sessionId res) = Some None"
    by (simp add: ttl expireIn_of_def m over_def)
  have 5: "override_of maxAge options = Absent \<longrightarrow>
            created_ttl w' (sessionId res) = Some (expireIn_of base)"
    by (auto simp: ttl m over_def intro: expireIn_of_maxAge)
  have 6: "override_of maxAge options = Absent \<and> maxAge base = Absent \<longrightarrow>
            created_ttl w' (sessionId res) = Some None"
    by (simp add: ttl expireIn_of_def m over_def)
  from 1 2 3 4 5 6 show ?thesis by blast
qed

theorem site_session_ttl_from_maxAge_witness:
  "created_ttl (snd (handleCallback spec_COOKIE_BASE demo_getToken ''s1'' http_request ()
       (Some (maxAge_override (Num 3600))) demo_world)) ''s1'' = Some (Some (Num 3600000)) \<and>
   created_ttl (snd (handleCallback spec_COOKIE_BASE demo_getToken ''s1'' http_request ()
       (Some (maxAge_override (Num (3 / 2)))) demo_world)) ''s1'' = Some (Some (Num 1500)) \<and>
   created_ttl (snd (handleCallback spec_COOKIE_BASE demo_getToken ''s1'' http_request ()
       (Some (maxAge_override (Num 0))) demo_world)) ''s1'' = Some None \<and>
   created_ttl (snd (handleCallback spec_COOKIE_BASE demo_getToken ''s1'' http_request ()
       (Some (maxAge_override NaN)) demo_world)) ''s1'' = Some None \<and>
   created_ttl (snd (handleCallback spec_COOKIE_BASE demo_getToken ''s1'' http_request ()
       (Some undefined_maxAge) demo_world)) ''s1'' = Some None \<and>
   created_ttl (snd (handleCallback spec_COOKIE_BASE demo_getToken ''s1'' http_request ()
       None demo_world)) ''s1'' = Some None"
proof -
  have acc: "\<not> cookie_refused (callback_cookie spec_COOKIE_BASE http_request ''s1''
                 (Some (maxAge_override (Num 3600))))"
      "\<not> cookie_refused (callback_cookie spec_COOKIE_BASE http_request ''s1''
                 (Some (maxAge_override (Num (3 / 2)))))"
      "\<not> cookie_refused (callback_cookie spec_COOKIE_BASE http_request ''s1''
                 (Some (maxAge_override (Num 0))))"
      "\<not> cookie_refused (callback_cookie spec_COOKIE_BASE http_request ''s1''
                 (Some (maxAge_override NaN)))"
    by (simp_all add: demo_accepts_maxAge integer_of_def floor_rat_divide_numeral)
  obtain r1 w1 where h1: "handleCallback spec_COOKIE_BASE demo_getToken ''s1'' http_request ()
       (Some (maxAge_override (Num 3600))) demo_world = (Inr r1, w1)"
    using demo_run_http[OF acc(1)] by blast
  obtain r2 w2 where h2: "handleCallback spec_COOKIE_BASE demo_getToken ''s1'' http_request ()
       (Some (maxAge_override (Num (3 / 2)))) demo_world = (Inr r2, w2)"
    using demo_run_http[OF acc(2)] by blast
  obtain r3 w3 where h3: "handleCallback spec_COOKIE_BASE demo_getToken ''s1'' http_request ()
       (Some (maxAge_override (Num 0))) demo_world = (Inr r3, w3)"
    using demo_run_http[OF acc(3)] by blast
  obtain r4 w4 where h4: "handleCallback spec_COOKIE_BASE demo_getToken ''s1'' http_request ()
       (Some (maxAge_override NaN)) demo_world = (Inr r4, w4)"
    using demo_run_http[OF acc(4)] by blast
  obtain r5 w5 where h5: "handleCallback spec_COOKIE_BASE demo_getToken ''s1'' http_request ()
       (Some undefined_maxAge) demo_world = (Inr r5, w5)"
    using demo_run_http[OF demo_accepts_undefined_maxAge] by blast
  obtain r6 w6 where h6: "handleCallback spec_COOKIE_BASE demo_getToken ''s1'' http_request ()
       None demo_world = (Inr r6, w6)"
    using demo_run_http[OF demo_accepts(1)] by blast
  have b: "maxAge spec_COOKIE_BASE = Absent" by (simp add: spec_COOKIE_BASE_def no_cookie_def)
  have w: "(0::int) < 3600 \<and> (3600::int) * 1000 < 2 ^ 53" by simp
  from site_session_ttl_from_maxAge[OF h1] w
  have "created_ttl w1 (sessionId r1) = Some (Some (Num (of_int (3600 * 1000))))"
    using override_of_maxAge_override[of "Num (of_int 3600)"] by (simp del: of_int_numeral) (simp)
  then have 1: "created_ttl w1 (sessionId r1) = Some (Some (Num 3600000))" by simp
  from site_session_ttl_from_maxAge[OF h2]
  have 2: "created_ttl w2 (sessionId r2) = Some (Some (Num 1500))"
    by (simp add: override_of_maxAge_override truthy_number_def times_SECOND_fraction)
  from site_session_ttl_from_maxAge[OF h3]
  have 3: "created_ttl w3 (sessionId r3) = Some None"
    by (simp add: override_of_maxAge_override truthy_number_def)
  from site_session_ttl_from_maxAge[OF h4]
  have 4: "created_ttl w4 (sessionId r4) = Some None"
    by (simp add: override_of_maxAge_override truthy_number_def)
  from site_session_ttl_from_maxAge[OF h5]
  have 5: "created_ttl w5 (sessionId r5) = Some None"
    by (simp add: override_of_undefined_maxAge)
  from site_session_ttl_from_maxAge[OF h6] b
  have 6: "created_ttl w6 (sessionId r6) = Some None"
    by (auto simp: override_of_None)
  from 1 2 3 4 5 6 created_ttl_run[OF h1] created_ttl_run[OF h2] created_ttl_run[OF h3]
    created_ttl_run[OF h4] created_ttl_run[OF h5] created_ttl_run[OF h6]
  show ?thesis by simp
qed

subsection \<open>C9: a \<open>maxAge\<close> of zero\<close>

text \<open>
  C9: with \<open>cookieOptions.maxAge = 0\<close>, a successful callback creates the site session
  with no time-to-live, while every cookie it sets carries \<open>Max-Age=0\<close>; it sets one
  whenever \<open>cookieOptions\<close> carry no \<open>name\<close>.
\<close>

theorem zero_maxAge_creates_unbounded_session:
  assumes "handleCallback base getToken uuid request cfg options w = (Inr res, w')"
    and "override_of maxAge options = Val (Num 0)"
  shows "created_ttl w' (sessionId res) = Some None \<and>
         (\<forall>c \<in> set (set_cookies (response res)). wire_maxAge c = Some 0) \<and>
         (override_of name options = Absent \<longrightarrow>
            (\<exists>c. set_cookies (response res) = [c] \<and> wire_maxAge c = Some 0))"
proof -
  let ?c = "callback_cookie base request uuid options"
  have ttl: "created_ttl w' (sessionId res) = Some (expireIn_of ?c)"
    by (simp add: created_ttl_def handleCallback_Inr_site_session[OF assms(1)]
          handleCallback_Inr_sessionId[OF assms(1)])
  have m: "maxAge ?c = Val (Num 0)"
    by (simp add: callback_cookie_maxAge assms(2) over_def)
  have 1: "created_ttl w' (sessionId res) = Some None"
    by (simp add: ttl expireIn_of_def m truthy_number_def)
  have 2: "\<forall>c \<in> set (set_cookies (response res)). wire_maxAge c = Some 0"
  proof
    fix c assume "c \<in> set (set_cookies (response res))"
    with handleCallback_Inr_cookies[OF assms(1)] have "toString ?c = Inr (Some c)"
      by (auto split: sum.splits option.splits)
    from toString_Some[OF this] m show "wire_maxAge c = Some 0"
      by (auto simp: integer_of_def)
  qed
  have 3: "override_of name options = Absent \<longrightarrow>
            (\<exists>c. set_cookies (response res) = [c] \<and> wire_maxAge c = Some 0)"
  proof
    assume "override_of name options = Absent"
    from handleCallback_Inr_named[OF assms(1) this] obtain v where "set_cookies (response res) = [v]"
      by blast
    with 2 show "\<exists>c. set_cookies (response res) = [c] \<and> wire_maxAge c = Some 0" by simp
  qed
  from 1 2 3 show ?thesis by blast
qed

theorem zero_maxAge_creates_unbounded_session_witness:
  "created_ttl (snd (handleCallback spec_COOKIE_BASE demo_getToken ''s1'' http_request ()
       (Some (maxAge_override (Num 0))) demo_world)) ''s1'' = Some None \<and>
   map wire_maxAge (emitted_cookies (fst (handleCallback spec_COOKIE_BASE demo_getToken ''s1'' http_request ()
       (Some (maxAge_override (Num 0))) demo_world))) = [Some 0]"
proof -
  have "\<not> cookie_refused (callback_cookie spec_COOKIE_BASE http_request ''s1''
                 (Some (maxAge_override (Num 0))))"
    by (simp add: demo_accepts_maxAge integer_of_def)
  from demo_run_http[OF this] obtain res w' where
    h: "handleCallback spec_COOKIE_BASE demo_getToken ''s1'' http_request ()
       (Some (maxAge_override (Num 0))) demo_world = (Inr res, w')" by blast
  have n: "override_of name (Some (maxAge_override (Num 0))) = Absent"
    by (simp add: override_of_def cookieOptions_of_def maxAge_override_def no_cookie_def)
  from zero_maxAge_creates_unbounded_session[OF h override_of_maxAge_override] n
  obtain c where "created_ttl w' (sessionId res) = Some None"
    "set_cookies (response res) = [c]" "wire_maxAge c = Some 0" by auto
  with h created_ttl_run[OF h] show ?thesis
    by (simp add: emitted_cookies_def)
qed

subsection \<open>C10: the helpers of \<^verbatim>\<open>createHelpers\<close>\<close>

text \<open>
  C10: each helper of \<open>createHelpers(oauthConfig, options)\<close> is the standalone operation
  with the configuration of construction time: \<open>signIn\<close> passes the request and the
  options of the call with \<open>oauthConfig\<close>; \<open>handleCallback\<close> and \<open>signOut\<close> pass the
  \<open>cookieOptions\<close> of construction time (for \<open>handleCallback\<close> this is the same as
  passing the options of construction time themselves); \<open>getSessionId\<close> passes only their
  \<open>name\<close>, as \<open>cookieName\<close>.
\<close>

theorem createHelpers_binds_configuration:
  "h_signIn (createHelpers signIn signOut getSessionId base getToken cfg options) request per_call
     = signIn request cfg per_call \<and>
   h_handleCallback (createHelpers signIn signOut getSessionId base getToken cfg options) uuid request w
     = handleCallback base getToken uuid request cfg
         (Some \<lparr>cookieOptions = construction_cookieOptions options\<rparr>) w \<and>
   h_handleCallback (createHelpers signIn signOut getSessionId base getToken cfg options) uuid request w
     = handleCallback base getToken uuid request cfg options w \<and>
   h_signOut (createHelpers signIn signOut getSessionId base getToken cfg options) request
     = signOut request (Some \<lparr>cookieOptions = construction_cookieOptions options\<rparr>) \<and>
   h_getSessionId (createHelpers signIn signOut getSessionId base getToken cfg options) request
     = getSessionId request (Some \<lparr>cookieName = construction_cookieName options\<rparr>)"
proof -
  have co: "cookieOptions_of options = construction_cookieOptions options"
    by (cases options) (simp_all add: cookieOptions_of_def construction_cookieOptions_def)
  have cn: "cookieOptions_name_of options = construction_cookieName options"
    by (cases "construction_cookieOptions options")
       (simp_all add: cookieOptions_name_of_def construction_cookieName_def co defined_name_def)
  have idem: "cookieOptions_of (Some \<lparr>cookieOptions = cookieOptions_of options\<rparr>)
       = cookieOptions_of options"
    by (simp add: cookieOptions_of_def)
  have same: "handleCallback base getToken uuid request cfg
         (Some \<lparr>cookieOptions = cookieOptions_of options\<rparr>) w
       = handleCallback base getToken uuid request cfg options w"
    by (simp only: handleCallback_def idem)
  show ?thesis
    by (simp add: createHelpers_def co[symmetric] cn[symmetric] same)
qed

end
